theory Spec2Isabelle
  imports Complex_Main "HOL-Library.AList"
begin

section \<open>Device API discovery: a shallow embedding of \<open>app/discovery.py\<close>\<close>

text \<open>
  The class \<open>ApiDiscovery\<close> authenticates against a device, then infers the device's
  metric and tag surface from an OpenAPI document or from sampled responses. The
  definitions below follow the methods of that class one by one and keep their names.
  Python dictionaries are association lists in insertion order (a parsed JSON object has
  distinct keys), exceptions are values of a sum type, the instance attributes are a
  record that every method takes and returns, and the network is a function of the
  number of requests issued so far and of the request.
\<close>

subsection \<open>JSON values\<close>

text \<open>
  What \<open>response.json()\<close> returns. Python keeps \<open>bool\<close>, \<open>int\<close> and \<open>float\<close> apart,
  and \<open>bool\<close> is a subclass of \<open>int\<close>: \<open>isinstance(True, (int, float))\<close> holds. A float
  carries its value as a real number; the analyzer only tests its type.
\<close>

datatype json =
    JNull
  | JBool bool
  | JInt int
  | JFloat real
  | JStr string
  | JArr "json list"
  | JObj "(string \<times> json) list"

text \<open>\<open>isinstance(value, (int, float))\<close>, \<open>isinstance(value, float)\<close> and the other type tests.\<close>

fun is_int_or_float :: "json \<Rightarrow> bool" where
  "is_int_or_float (JInt _) = True"
| "is_int_or_float (JFloat _) = True"
| "is_int_or_float (JBool _) = True"
| "is_int_or_float _ = False"

fun is_float :: "json \<Rightarrow> bool" where
  "is_float (JFloat _) = True"
| "is_float _ = False"

fun is_str :: "json \<Rightarrow> bool" where
  "is_str (JStr _) = True"
| "is_str _ = False"

fun is_dict :: "json \<Rightarrow> bool" where
  "is_dict (JObj _) = True"
| "is_dict _ = False"

fun is_list :: "json \<Rightarrow> bool" where
  "is_list (JArr _) = True"
| "is_list _ = False"

text \<open>\<open>len(value)\<close>, where the source calls it (on strings, lists and dictionaries).\<close>

fun len :: "json \<Rightarrow> nat" where
  "len (JObj items) = length items"
| "len (JArr xs) = length xs"
| "len (JStr s) = length s"
| "len _ = 0"

subsection \<open>The structural analyzer, \<open>_analyze_json_structure\<close>\<close>

text \<open>
  A metric is the dictionary \<open>{"path", "name", "type"}\<close>, a tag is \<open>{"path", "name"}\<close>.
\<close>

record metric =
  m_path :: string
  m_name :: string
  m_type :: string

record tag =
  t_path :: string
  t_name :: string

text \<open>\<open>path.replace(".", "_")\<close>: every dot becomes an underscore, nothing else changes.\<close>

definition replace_dot :: "string \<Rightarrow> string" where
  "replace_dot s = map (\<lambda>c. if c = CHR ''.'' then CHR ''_'' else c) s"

text \<open>\<open>f"{prefix}.{key}" if prefix else key\<close>.\<close>

definition join_path :: "string \<Rightarrow> string \<Rightarrow> string" where
  "join_path prefix key = (if prefix \<noteq> [] then prefix @ ''.'' @ key else key)"

text \<open>\<open>metrics.extend(child_metrics); tags.extend(child_tags)\<close> on the pair of result lists.\<close>

definition extend_lists :: "metric list \<times> tag list \<Rightarrow> metric list \<times> tag list \<Rightarrow> metric list \<times> tag list" where
  "extend_lists found child = (fst found @ fst child, snd found @ snd child)"

text \<open>
  \<open>analyze_json_structure data prefix\<close> is the method; \<open>analyze_items\<close> is its loop
  \<open>for key, value in data.items()\<close>, with the \<open>if\<close>/\<open>elif\<close> chain of the loop body in the
  source's order. A list contributes what its first element contributes under the
  prefix extended by \<open>[*]\<close>; anything that is neither a dictionary nor a non-empty list
  contributes nothing.
\<close>

fun analyze_json_structure :: "json \<Rightarrow> string \<Rightarrow> metric list \<times> tag list"
  and analyze_items :: "(string \<times> json) list \<Rightarrow> string \<Rightarrow> metric list \<times> tag list"
where
  "analyze_json_structure (JObj items) prefix = analyze_items items prefix"
| "analyze_json_structure (JArr []) prefix = ([], [])"
| "analyze_json_structure (JArr (sample # rest)) prefix =
     analyze_json_structure sample (prefix @ ''[*]'')"
| "analyze_json_structure JNull prefix = ([], [])"
| "analyze_json_structure (JBool b) prefix = ([], [])"
| "analyze_json_structure (JInt i) prefix = ([], [])"
| "analyze_json_structure (JFloat r) prefix = ([], [])"
| "analyze_json_structure (JStr s) prefix = ([], [])"
| "analyze_items [] prefix = ([], [])"
| "analyze_items ((key, v) # rest) prefix =
     extend_lists
       (if is_int_or_float v then
          ([\<lparr>m_path = join_path prefix key, m_name = replace_dot (join_path prefix key),
             m_type = (if is_float v then ''float'' else ''int'')\<rparr>], [])
        else if is_str v \<and> len v < 80 then
          ([], [\<lparr>t_path = join_path prefix key, t_name = replace_dot (join_path prefix key)\<rparr>])
        else if is_dict v \<or> is_list v then
          analyze_json_structure v (join_path prefix key)
        else ([], []))
       (analyze_items rest prefix)"

subsection \<open>The deep-nesting check, \<open>_is_deeply_nested\<close>\<close>

text \<open>
  \<open>check_depth\<close> is the inner function of the source: the depth test comes first, then a
  dictionary asks \<open>any\<close> of its values one level down (\<open>check_depth_any\<close>), a non-empty
  list asks its first element only, and everything else answers \<open>False\<close>.
\<close>

fun check_depth :: "nat \<Rightarrow> json \<Rightarrow> nat \<Rightarrow> bool"
  and check_depth_any :: "nat \<Rightarrow> (string \<times> json) list \<Rightarrow> nat \<Rightarrow> bool"
where
  "check_depth max_depth (JObj items) current_depth =
     (if current_depth \<ge> max_depth then True
      else check_depth_any max_depth items (current_depth + 1))"
| "check_depth max_depth (JArr []) current_depth =
     (if current_depth \<ge> max_depth then True else False)"
| "check_depth max_depth (JArr (first # rest)) current_depth =
     (if current_depth \<ge> max_depth then True
      else check_depth max_depth first (current_depth + 1))"
| "check_depth max_depth JNull current_depth =
     (if current_depth \<ge> max_depth then True else False)"
| "check_depth max_depth (JBool b) current_depth =
     (if current_depth \<ge> max_depth then True else False)"
| "check_depth max_depth (JInt i) current_depth =
     (if current_depth \<ge> max_depth then True else False)"
| "check_depth max_depth (JFloat r) current_depth =
     (if current_depth \<ge> max_depth then True else False)"
| "check_depth max_depth (JStr s) current_depth =
     (if current_depth \<ge> max_depth then True else False)"
| "check_depth_any max_depth [] current_depth = False"
| "check_depth_any max_depth ((key, v) # rest) current_depth =
     (check_depth max_depth v current_depth \<or> check_depth_any max_depth rest current_depth)"

definition is_deeply_nested :: "json \<Rightarrow> nat \<Rightarrow> bool" where
  "is_deeply_nested data max_depth =
     (if \<not> (is_dict data \<or> is_list data) then False
      else if is_dict data \<and> len data = 0 then False
      else if is_list data \<and> len data = 0 then False
      else check_depth max_depth data 0)"

subsection \<open>Notions the properties are stated with\<close>

text \<open>
  The depth a value reaches along the branches the check follows: every value of a
  dictionary, the first element of a list. A scalar and an empty container are at depth
  0 of themselves.
\<close>

fun sampled_depth :: "json \<Rightarrow> nat"
  and sampled_depth_values :: "(string \<times> json) list \<Rightarrow> nat"
where
  "sampled_depth (JObj []) = 0"
| "sampled_depth (JObj (kv # kvs)) = Suc (sampled_depth_values (kv # kvs))"
| "sampled_depth (JArr []) = 0"
| "sampled_depth (JArr (x # xs)) = Suc (sampled_depth x)"
| "sampled_depth JNull = 0"
| "sampled_depth (JBool b) = 0"
| "sampled_depth (JInt i) = 0"
| "sampled_depth (JFloat r) = 0"
| "sampled_depth (JStr s) = 0"
| "sampled_depth_values [] = 0"
| "sampled_depth_values ((k, v) # rest) = max (sampled_depth v) (sampled_depth_values rest)"

text \<open>
  The depth a value reaches along any branch: every value of a dictionary and every
  element of a list.
\<close>

fun full_depth :: "json \<Rightarrow> nat"
  and full_depth_values :: "(string \<times> json) list \<Rightarrow> nat"
  and full_depth_elements :: "json list \<Rightarrow> nat"
where
  "full_depth (JObj []) = 0"
| "full_depth (JObj (kv # kvs)) = Suc (full_depth_values (kv # kvs))"
| "full_depth (JArr []) = 0"
| "full_depth (JArr (x # xs)) = Suc (full_depth_elements (x # xs))"
| "full_depth JNull = 0"
| "full_depth (JBool b) = 0"
| "full_depth (JInt i) = 0"
| "full_depth (JFloat r) = 0"
| "full_depth (JStr s) = 0"
| "full_depth_values [] = 0"
| "full_depth_values ((k, v) # rest) = max (full_depth v) (full_depth_values rest)"
| "full_depth_elements [] = 0"
| "full_depth_elements (x # rest) = max (full_depth x) (full_depth_elements rest)"

text \<open>
  A leaf the policy ignores: \<open>null\<close>, or a string of 80 characters or more.
  \<open>no_ignored_leaf\<close> says that no such leaf occurs in a value at any path: not as the
  value itself, not as the value of a dictionary member, not as an element of a list,
  at any depth.
\<close>

fun ignored_leaf :: "json \<Rightarrow> bool" where
  "ignored_leaf JNull = True"
| "ignored_leaf (JStr s) = (80 \<le> length s)"
| "ignored_leaf _ = False"

fun no_ignored_leaf :: "json \<Rightarrow> bool"
  and no_ignored_items :: "(string \<times> json) list \<Rightarrow> bool"
  and no_ignored_elements :: "json list \<Rightarrow> bool"
where
  "no_ignored_leaf (JObj items) = no_ignored_items items"
| "no_ignored_leaf (JArr xs) = no_ignored_elements xs"
| "no_ignored_leaf JNull = False"
| "no_ignored_leaf (JStr s) = (length s < 80)"
| "no_ignored_leaf (JBool b) = True"
| "no_ignored_leaf (JInt i) = True"
| "no_ignored_leaf (JFloat r) = True"
| "no_ignored_items [] = True"
| "no_ignored_items ((key, v) # rest) = (no_ignored_leaf v \<and> no_ignored_items rest)"
| "no_ignored_elements [] = True"
| "no_ignored_elements (x # rest) = (no_ignored_leaf x \<and> no_ignored_elements rest)"

text \<open>
  The value with every ignored leaf taken out, at every path: a dictionary member with
  such a value is removed; such a leaf that is a list element, or the value itself,
  cannot be removed without moving what stands beside it and is replaced by the empty
  dictionary, which has no leaf at all.
\<close>

fun without_ignored :: "json \<Rightarrow> json"
  and without_ignored_items :: "(string \<times> json) list \<Rightarrow> (string \<times> json) list"
  and without_ignored_elements :: "json list \<Rightarrow> json list"
where
  "without_ignored (JObj items) = JObj (without_ignored_items items)"
| "without_ignored (JArr xs) = JArr (without_ignored_elements xs)"
| "without_ignored JNull = JObj []"
| "without_ignored (JStr s) = (if 80 \<le> length s then JObj [] else JStr s)"
| "without_ignored (JBool b) = JBool b"
| "without_ignored (JInt i) = JInt i"
| "without_ignored (JFloat r) = JFloat r"
| "without_ignored_items [] = []"
| "without_ignored_items ((key, v) # rest) =
     (if ignored_leaf v then without_ignored_items rest
      else (key, without_ignored v) # without_ignored_items rest)"
| "without_ignored_elements [] = []"
| "without_ignored_elements (x # rest) = without_ignored x # without_ignored_elements rest"

text \<open>
  The flattening that maps the dot and the three characters of the suffix \<open>[*]\<close> alike
  to underscores.
\<close>

definition flatten_separators :: "string \<Rightarrow> string" where
  "flatten_separators s =
     map (\<lambda>c. if c = CHR ''.'' \<or> c = CHR ''['' \<or> c = CHR ''*'' \<or> c = CHR '']'' then CHR ''_'' else c) s"

subsection \<open>Python values and errors\<close>

text \<open>
  The exceptions the modelled code can raise. \<open>RequestException\<close> carries \<open>str(e)\<close>, which
  the sampling loop copies into its output.
\<close>

datatype py_error =
    RequestException string
  | JSONDecodeError
  | AttributeError
  | TypeError
  | KeyError string

text \<open>Truthiness, as \<open>if not x\<close> tests it.\<close>

fun py_truthy :: "json \<Rightarrow> bool" where
  "py_truthy JNull = False"
| "py_truthy (JBool b) = b"
| "py_truthy (JInt i) = (i \<noteq> 0)"
| "py_truthy (JFloat r) = (r \<noteq> 0)"
| "py_truthy (JStr s) = (s \<noteq> [])"
| "py_truthy (JArr xs) = (xs \<noteq> [])"
| "py_truthy (JObj items) = (items \<noteq> [])"

text \<open>
  \<open>obj.get(key, dflt)\<close> and \<open>obj.items()\<close>: only a dictionary has them, any other
  value raises \<open>AttributeError\<close>.
\<close>

fun json_get :: "json \<Rightarrow> string \<Rightarrow> json \<Rightarrow> py_error + json" where
  "json_get (JObj items) key dflt =
     Inr (case map_of items key of Some v \<Rightarrow> v | None \<Rightarrow> dflt)"
| "json_get _ key dflt = Inl AttributeError"

fun json_items :: "json \<Rightarrow> py_error + (string \<times> json) list" where
  "json_items (JObj items) = Inr items"
| "json_items _ = Inl AttributeError"

text \<open>\<open>sub in s\<close> on strings; \<open>s.lower()\<close> and \<open>s.upper()\<close> on the ASCII letters.\<close>

fun contains :: "string \<Rightarrow> string \<Rightarrow> bool" where
  "contains sub [] = (sub = [])"
| "contains sub (c # cs) = (take (length sub) (c # cs) = sub \<or> contains sub cs)"

definition lower :: "string \<Rightarrow> string" where
  "lower s =
     map (\<lambda>c. case map_of (zip ''ABCDEFGHIJKLMNOPQRSTUVWXYZ'' ''abcdefghijklmnopqrstuvwxyz'') c of
                 Some d \<Rightarrow> d | None \<Rightarrow> c) s"

definition upper :: "string \<Rightarrow> string" where
  "upper s =
     map (\<lambda>c. case map_of (zip ''abcdefghijklmnopqrstuvwxyz'' ''ABCDEFGHIJKLMNOPQRSTUVWXYZ'') c of
                 Some d \<Rightarrow> d | None \<Rightarrow> c) s"

text \<open>\<open>s.rstrip('/')\<close> and \<open>s.lstrip('/')\<close>, and the URL both discovery modes build from them.\<close>

definition rstrip_slash :: "string \<Rightarrow> string" where
  "rstrip_slash s = rev (dropWhile (\<lambda>c. c = CHR ''/'') (rev s))"

definition lstrip_slash :: "string \<Rightarrow> string" where
  "lstrip_slash s = dropWhile (\<lambda>c. c = CHR ''/'') s"

definition join_url :: "string \<Rightarrow> string \<Rightarrow> string" where
  "join_url base path = rstrip_slash base @ ''/'' @ lstrip_slash path"

subsection \<open>Configuration and instance state\<close>

text \<open>
  A configured endpoint is \<open>{"path", "method"}\<close>. \<open>api_config\<close> is \<open>device_config["api"]\<close>:
  a key that may be missing is an option. \<open>api_endpoints\<close> is the key \<open>endpoints\<close>.
\<close>

record endpoint =
  ep_path :: string
  ep_method :: string

record api_config =
  base_url :: string
  auth_type :: "string option"
  auth_type_extension :: "string option"
  auth_endpoint :: "string option"
  username :: "string option"
  password :: "string option"
  openid_client_id :: "string option"
  openid_scope :: "string option"
  swagger_url :: "string option"
  api_endpoints :: "endpoint list option"

record device_config =
  device_name :: string
  api :: api_config

text \<open>
  The attributes of an \<open>ApiDiscovery\<close> instance. \<open>authorization\<close> is the token \<open>t\<close> of the
  session header \<open>Authorization: Bearer t\<close>. The token store maps a device name to its
  token record, a dictionary of JSON values.
\<close>

type_synonym token_data = "(string \<times> json) list"

type_synonym token_store = "(string \<times> token_data) list"

record api_discovery =
  device_config :: device_config
  auth_token :: "json option"
  authorization :: "json option"
  token_store :: token_store
  auth_failed :: bool
  auth_error :: "string option"

text \<open>\<open>self.auth_type\<close>, set in \<open>__init__\<close> as \<open>device_config["api"].get("auth_type", "none")\<close>.\<close>

definition self_auth_type :: "api_discovery \<Rightarrow> string" where
  "self_auth_type self =
     (case auth_type (api (device_config self)) of None \<Rightarrow> ''none'' | Some t \<Rightarrow> t)"

definition self_base_url :: "api_discovery \<Rightarrow> string" where
  "self_base_url self = base_url (api (device_config self))"

subsection \<open>The network\<close>

text \<open>
  A response, as far as the code reads it: \<open>raise_for_status()\<close> raises an \<open>HTTPError\<close>
  (a \<open>RequestException\<close>) with the message \<open>http_error\<close> when that is set; \<open>json()\<close> returns
  \<open>json_body\<close> or raises \<open>JSONDecodeError\<close> when there is none; \<open>content_type\<close> is the
  header of that name.

  The transport answers the request number \<open>n\<close> (counting from 0 the requests a
  discovery run has issued), of a method to a URL, with a response or with the message
  of the \<open>RequestException\<close> the call raises. Every request is appended to a log of
  (method, URL) pairs.
\<close>

record http_response =
  http_error :: "string option"
  json_body :: "json option"
  content_type :: "string option"

type_synonym transport = "nat \<Rightarrow> string \<Rightarrow> string \<Rightarrow> string + http_response"

type_synonym request_log = "(string \<times> string) list"

subsection \<open>The discovery output\<close>

text \<open>
  An endpoint descriptor is one of four dictionaries: the sampled ones with \<open>status\<close>
  \<open>ok\<close>, \<open>non-json\<close> and \<open>error\<close>, and the one read from an OpenAPI document.
  \<open>ec_nested_json\<close> says whether the key \<open>nested_json\<close> is there (its value is \<open>True\<close>);
  \<open>ec_jsonv2_config\<close> is the pair \<open>fields\<close>, \<open>tags\<close> of the key \<open>jsonv2_config\<close>;
  \<open>ec_schema\<close> is the key \<open>schema\<close> of \<open>responses\<close>.
\<close>

datatype endpoint_config =
    Ok_endpoint (ec_path: string) (ec_method: string) (ec_metrics: "metric list")
      (ec_tags: "tag list") (ec_nested_json: bool)
      (ec_jsonv2_config: "(metric list \<times> tag list) option")
  | Non_json_endpoint (ec_path: string) (ec_method: string) (ec_content_type: string)
  | Error_endpoint (ec_path: string) (ec_method: string) (ec_error: string)
  | Swagger_endpoint (ec_path: string) (ec_method: string) (ec_description: json)
      (ec_swagger_tags: json) (ec_parameters: json) (ec_schema: "json option")

fun ec_status :: "endpoint_config \<Rightarrow> string option" where
  "ec_status (Ok_endpoint _ _ _ _ _ _) = Some ''ok''"
| "ec_status (Non_json_endpoint _ _ _) = Some ''non-json''"
| "ec_status (Error_endpoint _ _ _) = Some ''error''"
| "ec_status (Swagger_endpoint _ _ _ _ _ _) = None"

record summary =
  total_endpoints :: nat
  successful_endpoints :: nat
  failed_endpoints :: nat

text \<open>
  The dictionary \<open>discover\<close> returns; a key that is not set is \<open>None\<close>. \<open>auth_failed_key\<close>
  and \<open>error_key\<close> are the keys \<open>auth_failed\<close> and \<open>error\<close> (whose value is
  \<open>self.auth_error\<close>, a string or Python's \<open>None\<close>).
\<close>

record api_structure =
  endpoints :: "endpoint_config list"
  samples :: "(string \<times> json) list option"
  summary :: "summary option"
  data_models :: "json option"
  auth_failed_key :: "bool option"
  error_key :: "string option option"

subsection \<open>Sampling-driven discovery, \<open>_discover_from_samples\<close>\<close>

text \<open>
  The local variables of the method while its loop runs: the two lists of
  \<open>api_structure\<close>, the two counters, the variable \<open>response\<close> (unbound until a request
  returns; Python keeps it from one iteration to the next), and the request log.
\<close>

record sampling =
  st_endpoints :: "endpoint_config list"
  st_samples :: "(string \<times> json) list"
  st_successful :: nat
  st_failed :: nat
  st_response :: "http_response option"
  st_requests :: request_log

text \<open>\<open>str(e)\<close> of the \<open>UnboundLocalError\<close> for reading \<open>response\<close> before any request returned.\<close>

definition unbound_response :: string where
  "unbound_response = ''cannot access local variable 'response' where it is not associated with a value''"

text \<open>
  The loop body from \<open>response.raise_for_status()\<close> on: an error status counts as failed
  and records an \<open>error\<close> descriptor; a body that is not JSON records a \<open>non-json\<close>
  descriptor and touches no counter; a JSON body counts as successful, is analyzed, and
  is stored under \<open>samples[path]\<close>.
\<close>

definition record_response :: "string \<Rightarrow> string \<Rightarrow> sampling \<Rightarrow> http_response \<Rightarrow> sampling" where
  "record_response path method st response =
     (case http_error response of
        Some req_e \<Rightarrow>
          st\<lparr>st_failed := st_failed st + 1,
             st_endpoints := st_endpoints st @ [Error_endpoint path method req_e]\<rparr>
      | None \<Rightarrow>
          (case json_body response of
             None \<Rightarrow>
               st\<lparr>st_endpoints := st_endpoints st @
                    [Non_json_endpoint path method
                       (case content_type response of None \<Rightarrow> ''unknown'' | Some c \<Rightarrow> c)]\<rparr>
           | Some data \<Rightarrow>
               (let deep = is_deeply_nested data 5;
                    metrics = fst (analyze_json_structure data '''');
                    tags = snd (analyze_json_structure data '''')
                in st\<lparr>st_successful := st_successful st + 1,
                      st_endpoints := st_endpoints st @
                        [Ok_endpoint path method metrics tags deep
                           (if deep \<and> (length metrics > 0 \<or> length tags > 0)
                            then Some (metrics, tags) else None)],
                      st_samples := AList.update path data (st_samples st)\<rparr>)))"

text \<open>The test that skips the authentication endpoint (\<open>continue\<close>).\<close>

definition is_auth_endpoint :: "api_discovery \<Rightarrow> string \<Rightarrow> bool" where
  "is_auth_endpoint self path =
     (self_auth_type self = ''token_from_auth'' \<and>
      auth_endpoint (api (device_config self)) = Some path)"

text \<open>
  One iteration of \<open>for endpoint in endpoints\<close>. A method other than \<open>GET\<close> and \<open>POST\<close>
  issues no request and goes on with whatever \<open>response\<close> holds.
\<close>

definition sample_endpoint :: "transport \<Rightarrow> api_discovery \<Rightarrow> sampling \<Rightarrow> endpoint \<Rightarrow> sampling" where
  "sample_endpoint net self st endpoint =
     (let path = ep_path endpoint; method = ep_method endpoint in
      if is_auth_endpoint self path then st
      else
        (let url = join_url (self_base_url self) path;
             failed = (\<lambda>s e. s\<lparr>st_failed := st_failed s + 1,
                               st_endpoints := st_endpoints s @ [Error_endpoint path method e]\<rparr>);
             sent = st\<lparr>st_requests := st_requests st @ [(method, url)]\<rparr>
         in if method = ''GET'' then
              (case net (length (st_requests st)) ''GET'' url of
                 Inl req_e \<Rightarrow> failed sent req_e
               | Inr response \<Rightarrow>
                   record_response path method (sent\<lparr>st_response := Some response\<rparr>) response)
            else if method = ''POST'' then
              (case net (length (st_requests st)) ''POST'' url of
                 Inl req_e \<Rightarrow> failed sent req_e
               | Inr response \<Rightarrow>
                   record_response path method (sent\<lparr>st_response := Some response\<rparr>) response)
            else
              (case st_response st of
                 None \<Rightarrow> failed st unbound_response
               | Some response \<Rightarrow> record_response path method st response)))"

text \<open>\<open>device_config["api"].get("endpoints", [{"path": "", "method": "GET"}])\<close>.\<close>

definition configured_endpoints :: "api_discovery \<Rightarrow> endpoint list" where
  "configured_endpoints self =
     (case api_endpoints (api (device_config self)) of
        None \<Rightarrow> [\<lparr>ep_path = '''', ep_method = ''GET''\<rparr>]
      | Some es \<Rightarrow> es)"

text \<open>
  The method: the loop over the endpoints, then the summary. \<open>issued\<close> holds the requests
  issued before the method was entered; the result is the structure and the log.
\<close>

definition sampling_loop :: "transport \<Rightarrow> api_discovery \<Rightarrow> request_log \<Rightarrow> endpoint list \<Rightarrow> sampling" where
  "sampling_loop net self issued es =
     foldl (sample_endpoint net self)
       \<lparr>st_endpoints = [], st_samples = [], st_successful = 0, st_failed = 0,
        st_response = None, st_requests = issued\<rparr> es"

definition discover_from_samples :: "transport \<Rightarrow> api_discovery \<Rightarrow> request_log \<Rightarrow> api_structure \<times> request_log" where
  "discover_from_samples net self issued =
     (let es = configured_endpoints self;
          st = sampling_loop net self issued es
      in (\<lparr>endpoints = st_endpoints st,
           samples = Some (st_samples st),
           summary = Some \<lparr>total_endpoints = length es,
                           successful_endpoints = st_successful st,
                           failed_endpoints = st_failed st\<rparr>,
           data_models = None, auth_failed_key = None, error_key = None\<rparr>,
          st_requests st))"

subsection \<open>Specification-driven discovery, \<open>_discover_from_swagger\<close>\<close>

text \<open>
  \<open>"schema" in response_spec\<close> followed by \<open>response_spec["schema"]\<close>: a dictionary gives
  the value of the key if it has one; a string or a list that contains \<open>"schema"\<close> cannot
  be indexed by it, and any other value does not support \<open>in\<close>.
\<close>

fun schema_of :: "json \<Rightarrow> py_error + json option" where
  "schema_of (JObj items) = Inr (map_of items ''schema'')"
| "schema_of (JArr xs) = (if JStr ''schema'' \<in> set xs then Inl TypeError else Inr None)"
| "schema_of (JStr s) = (if contains ''schema'' s then Inl TypeError else Inr None)"
| "schema_of _ = Inl TypeError"

text \<open>
  The loop over \<open>operation.get("responses", {}).items()\<close>: every status that starts with
  \<open>2\<close> and has a schema overwrites \<open>endpoint["responses"]["schema"]\<close>.
\<close>

fun success_schema :: "(string \<times> json) list \<Rightarrow> json option \<Rightarrow> py_error + json option" where
  "success_schema [] schema = Inr schema"
| "success_schema ((status, response_spec) # rest) schema =
     (if take 1 status = ''2'' then
        (case schema_of response_spec of
           Inl e \<Rightarrow> Inl e
         | Inr None \<Rightarrow> success_schema rest schema
         | Inr (Some s) \<Rightarrow> success_schema rest (Some s))
      else success_schema rest schema)"

text \<open>
  The loop over \<open>path_item.items()\<close>: an operation whose method is \<open>get\<close> or \<open>post\<close> in
  any case appends one descriptor; the others are passed over unread.
\<close>

fun swagger_operations ::
  "string \<Rightarrow> (string \<times> json) list \<Rightarrow> endpoint_config list \<Rightarrow> py_error + endpoint_config list"
where
  "swagger_operations path [] found = Inr found"
| "swagger_operations path ((method, operation) # rest) found =
     (if lower method \<in> set [''get'', ''post''] then
        (case json_get operation ''summary'' (JStr '''') of
           Inl e \<Rightarrow> Inl e
         | Inr description \<Rightarrow>
        (case json_get operation ''tags'' (JArr []) of
           Inl e \<Rightarrow> Inl e
         | Inr tags \<Rightarrow>
        (case json_get operation ''parameters'' (JArr []) of
           Inl e \<Rightarrow> Inl e
         | Inr parameters \<Rightarrow>
        (case json_get operation ''responses'' (JObj []) of
           Inl e \<Rightarrow> Inl e
         | Inr responses \<Rightarrow>
        (case json_items responses of
           Inl e \<Rightarrow> Inl e
         | Inr response_items \<Rightarrow>
        (case success_schema response_items None of
           Inl e \<Rightarrow> Inl e
         | Inr schema \<Rightarrow>
             swagger_operations path rest
               (found @ [Swagger_endpoint path (upper method) description tags parameters
                           schema])))))))
      else swagger_operations path rest found)"

text \<open>The loop over \<open>swagger_spec.get("paths", {}).items()\<close>.\<close>

fun swagger_paths ::
  "(string \<times> json) list \<Rightarrow> endpoint_config list \<Rightarrow> py_error + endpoint_config list"
where
  "swagger_paths [] found = Inr found"
| "swagger_paths ((path, path_item) # rest) found =
     (case json_items path_item of
        Inl e \<Rightarrow> Inl e
      | Inr operations \<Rightarrow>
          (case swagger_operations path operations found of
             Inl e \<Rightarrow> Inl e
           | Inr found' \<Rightarrow> swagger_paths rest found'))"

text \<open>
  \<open>definitions\<close>, or \<open>components.schemas\<close> when \<open>definitions\<close> is missing or empty.
\<close>

definition swagger_definitions :: "json \<Rightarrow> py_error + json" where
  "swagger_definitions swagger_spec =
     (case json_get swagger_spec ''definitions'' (JObj []) of
        Inl e \<Rightarrow> Inl e
      | Inr definitions \<Rightarrow>
          (if \<not> py_truthy definitions then
             (case json_get swagger_spec ''components'' (JObj []) of
                Inl e \<Rightarrow> Inl e
              | Inr components \<Rightarrow> json_get components ''schemas'' (JObj []))
           else Inr definitions))"

text \<open>
  The method from the parsed document on. The outcome of \<open>validate(swagger_spec)\<close> is
  logged and otherwise unused. A document without \<open>paths\<close> has no endpoints and is
  returned as it is: nothing is raised.
\<close>

definition swagger_structure :: "json \<Rightarrow> py_error + api_structure" where
  "swagger_structure swagger_spec =
     (case json_get swagger_spec ''paths'' (JObj []) of
        Inl e \<Rightarrow> Inl e
      | Inr paths \<Rightarrow>
     (case json_items paths of
        Inl e \<Rightarrow> Inl e
      | Inr path_items \<Rightarrow>
     (case swagger_paths path_items [] of
        Inl e \<Rightarrow> Inl e
      | Inr found \<Rightarrow>
     (case swagger_definitions swagger_spec of
        Inl e \<Rightarrow> Inl e
      | Inr definitions \<Rightarrow>
          Inr \<lparr>endpoints = found, samples = None, summary = None,
               data_models = Some definitions, auth_failed_key = None,
               error_key = None\<rparr>))))"

text \<open>
  The whole method: one \<open>GET\<close> of \<open>swagger_url\<close>, then \<open>raise_for_status()\<close> and \<open>json()\<close>.
  Every exception is logged and raised again, so the result is the exception or the
  structure, with the log of the one request.
\<close>

definition discover_from_swagger ::
  "transport \<Rightarrow> api_discovery \<Rightarrow> (py_error + api_structure) \<times> request_log" where
  "discover_from_swagger net self =
     (case swagger_url (api (device_config self)) of
        None \<Rightarrow> (Inl (KeyError ''swagger_url''), [])
      | Some url \<Rightarrow>
          ((case net 0 ''GET'' url of
              Inl req_e \<Rightarrow> Inl (RequestException req_e)
            | Inr response \<Rightarrow>
                (case http_error response of
                   Some req_e \<Rightarrow> Inl (RequestException req_e)
                 | None \<Rightarrow>
                     (case json_body response of
                        None \<Rightarrow> Inl JSONDecodeError
                      | Some swagger_spec \<Rightarrow> swagger_structure swagger_spec))),
           [(''GET'', url)]))"

subsection \<open>The orchestrator, \<open>discover\<close>\<close>

text \<open>
  After a failed authentication nothing is requested. With a \<open>swagger_url\<close> the document
  is tried first and sampling runs only if that raised; the request log goes on from
  the one request already made.
\<close>

definition discover :: "transport \<Rightarrow> api_discovery \<Rightarrow> api_structure \<times> request_log" where
  "discover net self =
     (if auth_failed self then
        (\<lparr>endpoints = [], samples = None, summary = None, data_models = None,
          auth_failed_key = Some True, error_key = Some (auth_error self)\<rparr>, [])
      else
        (case swagger_url (api (device_config self)) of
           Some url \<Rightarrow>
             (case discover_from_swagger net self of
                (Inr structure, issued) \<Rightarrow> (structure, issued)
              | (Inl e, issued) \<Rightarrow> discover_from_samples net self issued)
         | None \<Rightarrow> discover_from_samples net self []))"

text \<open>The same instance with the key \<open>swagger_url\<close> removed from its configuration.\<close>

definition without_swagger_url :: "api_discovery \<Rightarrow> api_discovery" where
  "without_swagger_url self =
     self\<lparr>device_config :=
       (device_config self)\<lparr>api := (api (device_config self))\<lparr>swagger_url := None\<rparr>\<rparr>\<rparr>"

text \<open>The same instance with another configured endpoint list.\<close>

definition with_endpoints :: "endpoint list \<Rightarrow> api_discovery \<Rightarrow> api_discovery" where
  "with_endpoints es self =
     self\<lparr>device_config :=
       (device_config self)\<lparr>api := (api (device_config self))\<lparr>api_endpoints := Some es\<rparr>\<rparr>\<rparr>"

subsection \<open>Notions the discovery properties are stated with\<close>

text \<open>
  A descriptor and a configured endpoint are matched by path and method. \<open>sampled\<close> are
  the configured endpoints the loop does not skip. \<open>count_status\<close> counts the descriptors
  of one status.
\<close>

definition descriptor_key :: "endpoint_config \<Rightarrow> string \<times> string" where
  "descriptor_key d = (ec_path d, ec_method d)"

definition endpoint_key :: "endpoint \<Rightarrow> string \<times> string" where
  "endpoint_key e = (ep_path e, ep_method e)"

definition sampled :: "api_discovery \<Rightarrow> endpoint list \<Rightarrow> endpoint list" where
  "sampled self es = filter (\<lambda>e. \<not> is_auth_endpoint self (ep_path e)) es"

definition count_status :: "string \<Rightarrow> endpoint_config list \<Rightarrow> nat" where
  "count_status s ds = length (filter (\<lambda>d. ec_status d = Some s) ds)"

subsection \<open>Example devices and networks\<close>

text \<open>
  A device without authentication that is sampled at its root; the same device with a
  login endpoint that is also in its endpoint list; the same device with an OpenAPI
  document. The networks answer every request alike: with a JSON document, with plain
  text, or with a JSON document except at one URL, where the connection is refused.
\<close>

definition example_api :: api_config where
  "example_api =
     \<lparr>base_url = ''http://device/api/'', auth_type = None, auth_type_extension = None,
      auth_endpoint = None, username = None, password = None, openid_client_id = None,
      openid_scope = None, swagger_url = None, api_endpoints = None\<rparr>"

definition example_device :: api_discovery where
  "example_device =
     \<lparr>device_config = \<lparr>device_name = ''probe'', api = example_api\<rparr>,
      auth_token = None, authorization = None, token_store = [], auth_failed = False,
      auth_error = None\<rparr>"

definition login_device :: api_discovery where
  "login_device =
     example_device\<lparr>device_config := \<lparr>device_name = ''probe'',
       api = example_api\<lparr>auth_type := Some ''token_from_auth'',
               auth_endpoint := Some ''/login'',
               api_endpoints := Some [\<lparr>ep_path = ''/login'', ep_method = ''POST''\<rparr>,
                                      \<lparr>ep_path = ''/status'', ep_method = ''GET''\<rparr>]\<rparr>\<rparr>\<rparr>"

definition swagger_device :: api_discovery where
  "swagger_device =
     example_device\<lparr>device_config := \<lparr>device_name = ''probe'',
       api = example_api\<lparr>swagger_url := Some ''http://device/swagger.json''\<rparr>\<rparr>\<rparr>"

definition json_net :: "json \<Rightarrow> transport" where
  "json_net document n method url =
     Inr \<lparr>http_error = None, json_body = Some document,
          content_type = Some ''application/json''\<rparr>"

definition text_net :: transport where
  "text_net n method url =
     Inr \<lparr>http_error = None, json_body = None, content_type = Some ''text/plain''\<rparr>"

definition refusing_at :: "string \<Rightarrow> json \<Rightarrow> transport" where
  "refusing_at refused document n method url =
     (if url = refused then Inl ''connection refused''
      else Inr \<lparr>http_error = None, json_body = Some document,
                content_type = Some ''application/json''\<rparr>)"

subsection \<open>The OpenID-Connect token flow\<close>

text \<open>
  A token request is the form that \<open>requests.post\<close> sends: the password grant of
  \<open>_get_openid_token\<close> or the refresh grant of \<open>_refresh_openid_token\<close>, whose
  \<open>client_id\<close> and \<open>refresh_token\<close> are the JSON values of the stored record.
\<close>

datatype token_request =
    Password_grant string string string string string
  | Refresh_grant string json json

text \<open>
  The environment of the flow, each part a function of the number of token requests
  posted so far: \<open>post\<close> answers a request with the parsed body of a successful
  response, or with \<open>None\<close> when \<open>requests.post\<close>, \<open>raise_for_status()\<close> or \<open>json()\<close>
  raises; \<open>clock\<close> is \<open>time.time()\<close>, in seconds, as a real number; \<open>file_write\<close> says
  how writing the token store file goes; \<open>environ\<close> is \<open>os.environ\<close>.

  Writing the file is \<open>os.makedirs\<close>, \<open>open(path, "w")\<close> and \<open>json.dump\<close>: it succeeds, or
  it fails before the file is opened and leaves the file as it was, or it fails after
  \<open>open\<close> has truncated the file and leaves a file that does not load.
\<close>

datatype write_outcome = Write_ok | Open_fails | Write_fails

record token_env =
  post :: "nat \<Rightarrow> token_request \<Rightarrow> json option"
  clock :: "nat \<Rightarrow> real"
  file_write :: "nat \<Rightarrow> write_outcome"
  environ :: "string \<Rightarrow> string option"

text \<open>
  The file \<open>/config/telegraf/token_store.json\<close>: missing, not loadable, or holding a
  token store. The world outside the instance is that file and the list of the token
  requests posted.
\<close>

datatype disk_file = No_file | Unreadable | Stored token_store

record world =
  disk :: disk_file
  posted :: "token_request list"

text \<open>
  \<open>_load_token_store\<close> replaces \<open>self.token_store\<close> when the file exists and loads;
  \<open>_save_token_store\<close> writes the whole store; a failure to write is caught and logged,
  and the method returns all the same.
\<close>

definition load_token_store :: "api_discovery \<Rightarrow> world \<Rightarrow> api_discovery" where
  "load_token_store self w =
     (case disk w of Stored loaded \<Rightarrow> self\<lparr>token_store := loaded\<rparr> | _ \<Rightarrow> self)"

definition save_token_store :: "token_env \<Rightarrow> api_discovery \<Rightarrow> world \<Rightarrow> world" where
  "save_token_store env self w =
     (case file_write env (length (posted w)) of
        Write_ok \<Rightarrow> w\<lparr>disk := Stored (token_store self)\<rparr>
      | Open_fails \<Rightarrow> w
      | Write_fails \<Rightarrow> w\<lparr>disk := Unreadable\<rparr>)"

text \<open>
  The number a JSON value stands for in the comparison with \<open>time.time() + 60\<close>, which
  Python decides exactly between an \<open>int\<close> and a \<open>float\<close>; any other value raises
  \<open>TypeError\<close> there.
\<close>

fun json_number :: "json \<Rightarrow> real option" where
  "json_number (JInt i) = Some (real_of_int i)"
| "json_number (JFloat r) = Some r"
| "json_number (JBool b) = Some (if b then 1 else 0)"
| "json_number _ = None"

text \<open>
  The number a JSON value adds in \<open>time.time() + expires_in\<close>. An \<open>int\<close> is converted to a
  \<open>float\<close> first, which raises \<open>OverflowError\<close> when it rounds to \<open>2 ^ 1024\<close> or beyond,
  that is from \<open>2 ^ 1024 - 2 ^ 970\<close> on; a value that is not a number raises
  \<open>TypeError\<close>. The sum is taken over the reals: the rounding of the floating-point
  addition, and the infinities and NaN that Python's parser also accepts, are not
  modelled.
\<close>

definition float_overflow :: int where
  "float_overflow = 2 ^ 1024 - 2 ^ 970"

fun float_addend :: "json \<Rightarrow> real option" where
  "float_addend (JInt i) = (if \<bar>i\<bar> < float_overflow then Some (real_of_int i) else None)"
| "float_addend (JFloat r) = Some r"
| "float_addend (JBool b) = Some (if b then 1 else 0)"
| "float_addend _ = None"

text \<open>
  What both grants do with the parsed response: read the three keys; return without a
  change when there is no access token; otherwise set the session's token, then
  overwrite the device's record with \<open>expires_at = time.time() + expires_in\<close> and save
  the store. \<open>Inl\<close> is the state in which an exception was raised, \<open>Inr\<close> the state in
  which the \<open>try\<close> block ended. \<open>old_refresh_token\<close> is the default of
  \<open>get("refresh_token", ...)\<close>: the stored refresh token in the refresh grant, \<open>None\<close> in
  the password grant.
\<close>

definition store_tokens ::
  "token_env \<Rightarrow> api_discovery \<Rightarrow> world \<Rightarrow> json \<Rightarrow> json \<Rightarrow> string \<Rightarrow> json \<Rightarrow>
     (api_discovery \<times> world) + (api_discovery \<times> world)" where
  "store_tokens env self w new_token_data old_refresh_token token_url client_id =
     (case json_get new_token_data ''access_token'' JNull of
        Inl e \<Rightarrow> Inl (self, w)
      | Inr access_token \<Rightarrow>
     (case json_get new_token_data ''refresh_token'' old_refresh_token of
        Inl e \<Rightarrow> Inl (self, w)
      | Inr new_refresh_token \<Rightarrow>
     (case json_get new_token_data ''expires_in'' (JInt 300) of
        Inl e \<Rightarrow> Inl (self, w)
      | Inr expires_in \<Rightarrow>
          (if \<not> py_truthy access_token then Inr (self, w)
           else
             (let self1 = self\<lparr>auth_token := Some access_token,
                                authorization := Some access_token\<rparr>
              in case float_addend expires_in of
                   None \<Rightarrow> Inl (self1, w)
                 | Some seconds \<Rightarrow>
                     (let self2 = self1\<lparr>token_store :=
                            AList.update (device_name (device_config self))
                              [(''access_token'', access_token),
                               (''refresh_token'', new_refresh_token),
                               (''expires_at'', JFloat (clock env (length (posted w)) + seconds)),
                               (''token_url'', JStr token_url),
                               (''client_id'', client_id)]
                              (token_store self1)\<rparr>
                      in Inr (self2, save_token_store env self2 w)))))))"

text \<open>
  The \<open>try\<close> block of \<open>_refresh_openid_token\<close>. A stored \<open>token_url\<close> that is not a
  string makes \<open>requests.post\<close> raise before anything is sent.
\<close>

definition refresh_attempt ::
  "token_env \<Rightarrow> api_discovery \<Rightarrow> world \<Rightarrow> token_data \<Rightarrow>
     (api_discovery \<times> world) + (api_discovery \<times> world)" where
  "refresh_attempt env self w token_data =
     (case map_of token_data ''token_url'' of
        None \<Rightarrow> Inl (self, w)
      | Some token_url \<Rightarrow>
     (case map_of token_data ''client_id'' of
        None \<Rightarrow> Inl (self, w)
      | Some client_id \<Rightarrow>
     (case map_of token_data ''refresh_token'' of
        None \<Rightarrow> Inl (self, w)
      | Some refresh_token \<Rightarrow>
     (case token_url of
        JStr url \<Rightarrow>
          (let request = Refresh_grant url client_id refresh_token;
               w1 = w\<lparr>posted := posted w @ [request]\<rparr>
           in case post env (length (posted w)) request of
                None \<Rightarrow> Inl (self, w1)
              | Some new_token_data \<Rightarrow>
                  store_tokens env self w1 new_token_data refresh_token url client_id)
      | _ \<Rightarrow> Inl (self, w)))))"

text \<open>
  \<open>${VAR}\<close> in the password: \<open>os.environ.get(VAR, "")\<close>.
\<close>

definition resolve_password :: "token_env \<Rightarrow> string \<Rightarrow> string" where
  "resolve_password env pw =
     (if take 2 pw = ''${'' \<and> pw \<noteq> [] \<and> last pw = CHR ''}'' then
        (case environ env (butlast (drop 2 pw)) of None \<Rightarrow> '''' | Some v \<Rightarrow> v)
      else pw)"

text \<open>
  The rest of \<open>_get_openid_token\<close> after the look at the stored record: the password
  grant. Every exception is caught by the method's own handler, which logs it, so the
  method returns in the state it had reached.
\<close>

definition password_grant :: "token_env \<Rightarrow> api_discovery \<Rightarrow> world \<Rightarrow> api_discovery \<times> world" where
  "password_grant env self w =
     (let api_config = api (device_config self) in
      case username api_config of
        None \<Rightarrow> (self, w)
      | Some user \<Rightarrow>
     (case password api_config of
        None \<Rightarrow> (self, w)
      | Some pw \<Rightarrow>
     (case auth_endpoint api_config of
        None \<Rightarrow> (self, w)
      | Some endpoint \<Rightarrow>
          (let client_id = (case openid_client_id api_config of None \<Rightarrow> ''webui'' | Some c \<Rightarrow> c);
               scope = (case openid_scope api_config of None \<Rightarrow> ''offline_access'' | Some s \<Rightarrow> s);
               token_url = join_url (self_base_url self) endpoint;
               request = Password_grant token_url client_id user (resolve_password env pw) scope;
               w1 = w\<lparr>posted := posted w @ [request]\<rparr>
           in case post env (length (posted w)) request of
                None \<Rightarrow> (self, w1)
              | Some token_data \<Rightarrow>
                  (case store_tokens env self w1 token_data JNull token_url (JStr client_id) of
                     Inl raised \<Rightarrow> raised
                   | Inr done \<Rightarrow> done)))))"

text \<open>
  \<open>token_data.get("expires_at", 0) > time.time() + 60\<close>; \<open>None\<close> when the stored value
  is not a number and the comparison raises.
\<close>

definition still_valid :: "token_env \<Rightarrow> world \<Rightarrow> token_data \<Rightarrow> bool option" where
  "still_valid env w token_data =
     (case json_number (case map_of token_data ''expires_at'' of None \<Rightarrow> JInt 0 | Some v \<Rightarrow> v) of
        None \<Rightarrow> None
      | Some expires_at \<Rightarrow> Some (expires_at > clock env (length (posted w)) + 60))"

text \<open>
  The two methods call each other: \<open>_get_openid_token\<close> hands an expired record that has
  the key \<open>refresh_token\<close> to \<open>_refresh_openid_token\<close>, whose exception handler calls
  \<open>_get_openid_token\<close> again. The first argument bounds the depth of these calls (the
  interpreter's stack); \<open>None\<close> means the bound was reached before the call returned.
\<close>

fun get_openid_token ::
    "nat \<Rightarrow> token_env \<Rightarrow> api_discovery \<Rightarrow> world \<Rightarrow> (api_discovery \<times> world) option"
  and refresh_openid_token ::
    "nat \<Rightarrow> token_env \<Rightarrow> api_discovery \<Rightarrow> world \<Rightarrow> token_data \<Rightarrow> (api_discovery \<times> world) option"
where
  "get_openid_token 0 env self w = None"
| "get_openid_token (Suc depth) env self w =
     (let self1 = load_token_store self w in
      case map_of (token_store self1) (device_name (device_config self1)) of
        Some token_data \<Rightarrow>
          (case still_valid env w token_data of
             None \<Rightarrow> Some (self1, w)
           | Some True \<Rightarrow>
               (case map_of token_data ''access_token'' of
                  None \<Rightarrow> Some (self1, w)
                | Some access_token \<Rightarrow>
                    Some (self1\<lparr>auth_token := Some access_token,
                                authorization := Some access_token\<rparr>, w))
           | Some False \<Rightarrow>
               (if ''refresh_token'' \<in> set (map fst token_data)
                then refresh_openid_token depth env self1 w token_data
                else Some (password_grant env self1 w)))
      | None \<Rightarrow> Some (password_grant env self1 w))"
| "refresh_openid_token 0 env self w token_data = None"
| "refresh_openid_token (Suc depth) env self w token_data =
     (case refresh_attempt env self w token_data of
        Inr done \<Rightarrow> Some done
      | Inl (self1, w1) \<Rightarrow> get_openid_token depth env self1 w1)"

subsection \<open>An example of the token flow\<close>

text \<open>
  A device whose stored record expired long ago and has a refresh token; a token
  endpoint that rejects every request; one that answers the refresh grant with a new
  access token and no refresh token; and the same endpoint on a machine where the
  token store file cannot be opened for writing.
\<close>

definition oidc_device :: api_discovery where
  "oidc_device =
     example_device\<lparr>device_config := \<lparr>device_name = ''probe'',
       api = example_api\<lparr>auth_type := Some ''token_from_auth'',
               auth_type_extension := Some ''openid_connect'',
               auth_endpoint := Some ''/auth/token'',
               username := Some ''monitor'', password := Some ''secret''\<rparr>\<rparr>\<rparr>"

definition stale_record :: token_data where
  "stale_record =
     [(''access_token'', JStr ''old-access''), (''refresh_token'', JStr ''old-refresh''),
      (''expires_at'', JFloat 1000), (''token_url'', JStr ''http://device/api/auth/token''),
      (''client_id'', JStr ''webui'')]"

definition stale_world :: world where
  "stale_world = \<lparr>disk = Stored [(''probe'', stale_record)], posted = []\<rparr>"

definition rejecting_env :: token_env where
  "rejecting_env =
     \<lparr>post = (\<lambda>n request. None), clock = (\<lambda>n. 5000), file_write = (\<lambda>n. Write_ok),
      environ = (\<lambda>v. None)\<rparr>"

definition refreshing_env :: token_env where
  "refreshing_env =
     \<lparr>post = (\<lambda>n request.
        case request of
          Refresh_grant url client_id refresh_token \<Rightarrow>
            Some (JObj [(''access_token'', JStr ''new-access''), (''expires_in'', JInt 120)])
        | Password_grant url client_id user pw scope \<Rightarrow> None),
      clock = (\<lambda>n. 5000), file_write = (\<lambda>n. Write_ok), environ = (\<lambda>v. None)\<rparr>"

definition unwritable_env :: token_env where
  "unwritable_env = refreshing_env\<lparr>file_write := (\<lambda>n. Open_fails)\<rparr>"

section \<open>Properties of the structural analyzer\<close>

lemma analyze_names:
  "(\<forall>m \<in> set (fst (analyze_json_structure j p)). m_name m = replace_dot (m_path m)) \<and>
   (\<forall>t \<in> set (snd (analyze_json_structure j p)). t_name t = replace_dot (t_path t))"
  "(\<forall>m \<in> set (fst (analyze_items kvs p)). m_name m = replace_dot (m_path m)) \<and>
   (\<forall>t \<in> set (snd (analyze_items kvs p)). t_name t = replace_dot (t_path t))"
  by (induction j p and kvs p rule: analyze_json_structure_analyze_items.induct)
     (auto simp: extend_lists_def split: if_splits)

lemma without_ignored_kind:
  "\<not> ignored_leaf v \<Longrightarrow> is_int_or_float (without_ignored v) = is_int_or_float v"
  "\<not> ignored_leaf v \<Longrightarrow> is_float (without_ignored v) = is_float v"
  "\<not> ignored_leaf v \<Longrightarrow> is_str (without_ignored v) = is_str v"
  "\<not> ignored_leaf v \<Longrightarrow> is_dict (without_ignored v) = is_dict v"
  "\<not> ignored_leaf v \<Longrightarrow> is_list (without_ignored v) = is_list v"
  "is_str v \<Longrightarrow> \<not> ignored_leaf v \<Longrightarrow> without_ignored v = v"
  by (cases v; simp)+

lemma analyze_without_ignored:
  "analyze_json_structure (without_ignored j) p = analyze_json_structure j p"
  "analyze_items (without_ignored_items kvs) p = analyze_items kvs p"
proof (induction j p and kvs p rule: analyze_json_structure_analyze_items.induct)
  case (10 key v rest prefix)
  show ?case
  proof (cases "ignored_leaf v")
    case True
    then show ?thesis using "10.IH"(2)
      by (cases v) (simp_all add: extend_lists_def)
  next
    case False
    then show ?thesis using "10.IH"
      by (cases v) (simp_all add: extend_lists_def)
  qed
qed simp_all

lemma without_ignored_clean:
  "no_ignored_leaf (without_ignored j)"
  "no_ignored_items (without_ignored_items kvs)"
  "no_ignored_elements (without_ignored_elements xs)"
  by (induction j and kvs and xs rule: without_ignored_without_ignored_items_without_ignored_elements.induct)
     simp_all

lemma extend_lists_nothing: "extend_lists ([], []) found = found"
  by (simp add: extend_lists_def)

lemma check_depth_sampled:
  "check_depth m j c = (m \<le> c + sampled_depth j)"
  "check_depth_any m kvs c = (kvs \<noteq> [] \<and> m \<le> c + sampled_depth_values kvs)"
proof (induction m j c and m kvs c rule: check_depth_check_depth_any.induct)
  case (1 max_depth items current_depth)
  then show ?case by (cases items) auto
next
  case (10 max_depth key v rest current_depth)
  then show ?case by (cases rest) auto
qed auto

lemma is_deeply_nested_iff:
  "is_deeply_nested j 5 = (5 \<le> sampled_depth j)"
  by (cases j rule: sampled_depth.cases(1)) (auto simp: is_deeply_nested_def check_depth_sampled)

text \<open>
  Claim C2, as stated: a leaf that is a boolean, \<open>null\<close> or a string of 80 characters or
  more yields neither a metric nor a tag. It fails for booleans: \<open>{"up": true}\<close> passes
  \<open>isinstance(value, (int, float))\<close> and yields a metric of type \<open>int\<close>.
\<close>

theorem C2_boolean_leaf_counterexample:
  "analyze_json_structure (JObj [(''up'', JBool True)]) '''' =
     ([\<lparr>m_path = ''up'', m_name = ''up'', m_type = ''int''\<rparr>], []) \<and>
   analyze_json_structure (JObj [(''up'', JBool True)]) '''' \<noteq> ([], [])"
  by (simp add: extend_lists_def join_path_def replace_dot_def)

text \<open>
  Claim C2, amended: a leaf that is \<open>null\<close> or a string of 80 characters or more yields
  neither a metric nor a tag, at any path. As the analyzed value itself, and as the
  sampled first element of a list, it yields nothing under every prefix; as the value
  of a dictionary member it adds nothing to what the other members yield; and for
  every JSON value the analyzer's output is its output on the value with all such
  leaves taken out, in which none occurs at any path. (A string of fewer than 80
  characters yields a tag as a dictionary member, and only there.)
\<close>

theorem C2_null_and_long_string_ignored:
  "analyze_json_structure JNull prefix = ([], []) \<and>
   analyze_json_structure (JStr s) prefix = ([], []) \<and>
   analyze_json_structure (JArr (JNull # others)) prefix = ([], []) \<and>
   analyze_json_structure (JArr (JStr s # others)) prefix = ([], []) \<and>
   analyze_items ((key, JNull) # rest) prefix = analyze_items rest prefix \<and>
   analyze_items ((key, JStr s) # rest) prefix =
     (if length s < 80
      then extend_lists
             ([], [\<lparr>t_path = join_path prefix key, t_name = replace_dot (join_path prefix key)\<rparr>])
             (analyze_items rest prefix)
      else analyze_items rest prefix) \<and>
   analyze_json_structure (without_ignored j) prefix = analyze_json_structure j prefix \<and>
   no_ignored_leaf (without_ignored j)"
  by (simp add: extend_lists_nothing analyze_without_ignored without_ignored_clean)

text \<open>
  Claim C8, as stated: the name is the path with the dots and the bracket suffix of
  array sampling flattened to underscores. It fails on the bracket suffix: for
  \<open>{"items": [{"n": 1}]}\<close> the metric has path \<open>items[*].n\<close> and name \<open>items[*]_n\<close>.
\<close>

theorem C8_bracket_suffix_counterexample:
  "fst (analyze_json_structure (JObj [(''items'', JArr [JObj [(''n'', JInt 1)]])]) '''') =
     [\<lparr>m_path = ''items[*].n'', m_name = ''items[*]_n'', m_type = ''int''\<rparr>] \<and>
   ''items[*]_n'' \<noteq> flatten_separators ''items[*].n'' \<and>
   CHR ''['' \<in> set ''items[*]_n''"
  by (simp add: extend_lists_def join_path_def replace_dot_def flatten_separators_def)

text \<open>
  Claim C8, amended: for every metric and every tag the analyzer emits, under any
  prefix, the name is the path with every dot replaced by an underscore (the bracket
  suffix \<open>[*]\<close> stays as it is); and for \<open>{"cpu": {"load": 0.5}}\<close> the output is the single
  metric with path \<open>cpu.load\<close>, name \<open>cpu_load\<close> and type \<open>float\<close>.
\<close>

theorem C8_name_replaces_dots:
  "(\<forall>m \<in> set (fst (analyze_json_structure j prefix)). m_name m = replace_dot (m_path m)) \<and>
   (\<forall>t \<in> set (snd (analyze_json_structure j prefix)). t_name t = replace_dot (t_path t)) \<and>
   analyze_json_structure (JObj [(''cpu'', JObj [(''load'', JFloat 0.5)])]) '''' =
     ([\<lparr>m_path = ''cpu.load'', m_name = ''cpu_load'', m_type = ''float''\<rparr>], [])"
  using analyze_names(1) [of j prefix]
  by (simp add: extend_lists_def join_path_def replace_dot_def)

theorem C8_name_replaces_dots_witness:
  "fst (analyze_json_structure (JObj [(''a.b'', JArr [JObj [(''n'', JInt 1)]])]) '''') =
     [\<lparr>m_path = ''a.b[*].n'', m_name = ''a_b[*]_n'', m_type = ''int''\<rparr>] \<and>
   m_name \<lparr>m_path = ''a.b[*].n'', m_name = ''a_b[*]_n'', m_type = ''int''\<rparr> =
     replace_dot (m_path \<lparr>m_path = ''a.b[*].n'', m_name = ''a_b[*]_n'', m_type = ''int''\<rparr>)"
  using C8_name_replaces_dots [of "JObj [(''a.b'', JArr [JObj [(''n'', JInt 1)]])]" "''''"]
  by (simp add: extend_lists_def join_path_def replace_dot_def)

section \<open>Properties of sampling-driven discovery\<close>

text \<open>The definitions a concrete run unfolds, and those of the examples.\<close>

lemmas run_defs =
  discover_def discover_from_samples_def discover_from_swagger_def sampling_loop_def
  sample_endpoint_def record_response_def configured_endpoints_def is_auth_endpoint_def
  self_auth_type_def self_base_url_def join_url_def rstrip_slash_def lstrip_slash_def
  without_swagger_url_def with_endpoints_def swagger_structure_def swagger_definitions_def
  is_deeply_nested_def extend_lists_def join_path_def replace_dot_def
  descriptor_key_def endpoint_key_def count_status_def sampled_def

lemmas example_defs =
  example_api_def example_device_def login_device_def swagger_device_def
  json_net_def text_net_def refusing_at_def

lemma record_response_keys:
  "map descriptor_key (st_endpoints (record_response path method st response)) =
     map descriptor_key (st_endpoints st) @ [(path, method)]"
  by (simp add: record_response_def Let_def descriptor_key_def split: option.splits)

lemma sample_endpoint_skip:
  "is_auth_endpoint self (ep_path e) \<Longrightarrow> sample_endpoint net self st e = st"
  by (simp add: sample_endpoint_def)

lemma sample_endpoint_keys:
  "map descriptor_key (st_endpoints (sample_endpoint net self st e)) =
     map descriptor_key (st_endpoints st) @
       (if is_auth_endpoint self (ep_path e) then [] else [endpoint_key e])"
  by (simp add: sample_endpoint_def Let_def record_response_keys endpoint_key_def
        descriptor_key_def split: sum.splits option.splits)

lemma sampling_keys:
  "map descriptor_key (st_endpoints (foldl (sample_endpoint net self) st es)) =
     map descriptor_key (st_endpoints st) @ map endpoint_key (sampled self es)"
  by (induction es arbitrary: st) (simp_all add: sample_endpoint_keys sampled_def)

lemma sampling_skips:
  "foldl (sample_endpoint net self) st (sampled self es) = foldl (sample_endpoint net self) st es"
  by (induction es arbitrary: st) (simp_all add: sampled_def sample_endpoint_skip)

lemma record_response_counted:
  "st_successful st = count_status ''ok'' (st_endpoints st) \<Longrightarrow>
   st_failed st = count_status ''error'' (st_endpoints st) \<Longrightarrow>
   st_successful (record_response p m st r) = count_status ''ok'' (st_endpoints (record_response p m st r)) \<and>
   st_failed (record_response p m st r) = count_status ''error'' (st_endpoints (record_response p m st r))"
  by (simp add: record_response_def Let_def count_status_def split: option.splits)

lemma sample_endpoint_counted:
  assumes "st_successful st = count_status ''ok'' (st_endpoints st)"
    and "st_failed st = count_status ''error'' (st_endpoints st)"
  shows "st_successful (sample_endpoint net self st e) =
           count_status ''ok'' (st_endpoints (sample_endpoint net self st e)) \<and>
         st_failed (sample_endpoint net self st e) =
           count_status ''error'' (st_endpoints (sample_endpoint net self st e))"
proof (cases "is_auth_endpoint self (ep_path e)")
  case True
  then show ?thesis using assms by (simp add: sample_endpoint_skip)
next
  case False
  have r: "\<And>s r. st_successful s = count_status ''ok'' (st_endpoints s) \<Longrightarrow>
      st_failed s = count_status ''error'' (st_endpoints s) \<Longrightarrow>
      st_successful (record_response (ep_path e) (ep_method e) s r) =
        count_status ''ok'' (st_endpoints (record_response (ep_path e) (ep_method e) s r)) \<and>
      st_failed (record_response (ep_path e) (ep_method e) s r) =
        count_status ''error'' (st_endpoints (record_response (ep_path e) (ep_method e) s r))"
    by (rule record_response_counted)
  show ?thesis
  proof (cases "ep_method e = ''GET'' \<or> ep_method e = ''POST''")
    case True
    let ?n = "length (st_requests st)"
    let ?url = "join_url (self_base_url self) (ep_path e)"
    show ?thesis
    proof (cases "net ?n (ep_method e) ?url")
      case (Inl msg)
      then show ?thesis using False True assms
        by (auto simp: sample_endpoint_def Let_def count_status_def)
    next
      case (Inr resp)
      have "sample_endpoint net self st e =
          record_response (ep_path e) (ep_method e)
            (st\<lparr>st_requests := st_requests st @ [(ep_method e, ?url)], st_response := Some resp\<rparr>) resp"
        using False True Inr by (auto simp: sample_endpoint_def Let_def)
      then show ?thesis using r [of "st\<lparr>st_requests := st_requests st @ [(ep_method e, ?url)], st_response := Some resp\<rparr>" resp] assms
        by simp
    qed
  next
    case other: False
    show ?thesis
    proof (cases "st_response st")
      case None
      then show ?thesis using False other assms
        by (auto simp: sample_endpoint_def Let_def count_status_def)
    next
      case (Some resp)
      have "sample_endpoint net self st e = record_response (ep_path e) (ep_method e) st resp"
        using False other Some by (auto simp: sample_endpoint_def Let_def)
      then show ?thesis using r [of st resp] assms by simp
    qed
  qed
qed

lemma sampling_counted:
  "st_successful st = count_status ''ok'' (st_endpoints st) \<Longrightarrow>
   st_failed st = count_status ''error'' (st_endpoints st) \<Longrightarrow>
   st_successful (foldl (sample_endpoint net self) st es) =
     count_status ''ok'' (st_endpoints (foldl (sample_endpoint net self) st es)) \<and>
   st_failed (foldl (sample_endpoint net self) st es) =
     count_status ''error'' (st_endpoints (foldl (sample_endpoint net self) st es))"
proof (induction es arbitrary: st)
  case Nil
  then show ?case by simp
next
  case (Cons e es)
  from sample_endpoint_counted [OF Cons.prems, of net self e]
  show ?case using Cons.IH [of "sample_endpoint net self st e"] by simp
qed


lemma sample_endpoint_shift:
  "sample_endpoint net self (st\<lparr>st_requests := pre @ st_requests st\<rparr>) e =
     (sample_endpoint (\<lambda>n. net (length pre + n)) self st e)
       \<lparr>st_requests := pre @ st_requests (sample_endpoint (\<lambda>n. net (length pre + n)) self st e)\<rparr>"
proof (cases "is_auth_endpoint self (ep_path e)")
  case True
  then show ?thesis by (simp add: sample_endpoint_skip)
next
  case False
  let ?url = "join_url (self_base_url self) (ep_path e)"
  let ?n = "length (st_requests st)"
  show ?thesis
  proof (cases "ep_method e = ''GET'' \<or> ep_method e = ''POST''")
    case True
    show ?thesis
    proof (cases "net (length pre + ?n) (ep_method e) ?url")
      case (Inl msg)
      then show ?thesis using False True
        by (auto simp: sample_endpoint_def Let_def)
    next
      case (Inr resp)
      then show ?thesis using False True
        by (auto simp: sample_endpoint_def Let_def record_response_def split: option.splits)
    qed
  next
    case other: False
    then show ?thesis using False
      by (cases "st_response st")
         (auto simp: sample_endpoint_def Let_def record_response_def split: option.splits)
  qed
qed

lemma sampling_shift:
  "foldl (sample_endpoint net self) (st\<lparr>st_requests := pre @ st_requests st\<rparr>) es =
     (foldl (sample_endpoint (\<lambda>n. net (length pre + n)) self) st es)
       \<lparr>st_requests := pre @ st_requests (foldl (sample_endpoint (\<lambda>n. net (length pre + n)) self) st es)\<rparr>"
proof (induction es arbitrary: st)
  case Nil
  show ?case by simp
next
  case (Cons e es)
  show ?case
    by (simp add: sample_endpoint_shift Cons.IH)
qed

lemma discover_from_samples_shift:
  "discover_from_samples net self pre =
     (fst (discover_from_samples (\<lambda>n. net (length pre + n)) self []),
      pre @ snd (discover_from_samples (\<lambda>n. net (length pre + n)) self []))"
  using sampling_shift [where net = net and self = self and pre = pre
      and es = "configured_endpoints self"
      and st = "\<lparr>st_endpoints = [], st_samples = [], st_successful = 0, st_failed = 0,
        st_response = None, st_requests = []\<rparr>"]
  by (simp add: discover_from_samples_def sampling_loop_def Let_def)

lemma config_change_keeps:
  "is_auth_endpoint (with_endpoints es self) = is_auth_endpoint self"
  "self_base_url (with_endpoints es self) = self_base_url self"
  "is_auth_endpoint (without_swagger_url self) = is_auth_endpoint self"
  "self_base_url (without_swagger_url self) = self_base_url self"
  by (simp_all add: fun_eq_iff with_endpoints_def without_swagger_url_def
      is_auth_endpoint_def self_auth_type_def self_base_url_def)

lemma sample_endpoint_config:
  "sample_endpoint net (with_endpoints es self) = sample_endpoint net self"
  "sample_endpoint net (without_swagger_url self) = sample_endpoint net self"
  by (simp_all add: fun_eq_iff sample_endpoint_def Let_def config_change_keeps)

lemma configured_endpoints_config:
  "configured_endpoints (with_endpoints es self) = es"
  "configured_endpoints (without_swagger_url self) = configured_endpoints self"
  by (simp_all add: configured_endpoints_def with_endpoints_def without_swagger_url_def)

lemma discover_from_samples_without_swagger:
  "discover_from_samples net (without_swagger_url self) issued = discover_from_samples net self issued"
  by (simp add: discover_from_samples_def sampling_loop_def sample_endpoint_config
      configured_endpoints_config)

lemma auth_failed_without_swagger:
  "auth_failed (without_swagger_url self) = auth_failed self"
  "swagger_url (api (device_config (without_swagger_url self))) = None"
  by (simp_all add: without_swagger_url_def)

lemma discover_falls_back:
  assumes "\<not> auth_failed self"
    and "swagger_url (api (device_config self)) = Some url"
    and "fst (discover_from_swagger net self) = Inl e"
  shows "discover net self = discover_from_samples net self [(''GET'', url)]"
proof -
  have "snd (discover_from_swagger net self) = [(''GET'', url)]"
    using assms(2) by (simp add: discover_from_swagger_def)
  with assms(3) have "discover_from_swagger net self = (Inl e, [(''GET'', url)])"
    by (simp add: prod_eq_iff)
  with assms(1,2) show ?thesis by (simp add: discover_def)
qed

lemma token_from_auth_skips:
  assumes "auth_type (api (device_config self)) = Some ''token_from_auth''"
    and "auth_endpoint (api (device_config self)) = Some p"
  shows "is_auth_endpoint self q = (q = p)"
  using assms by (auto simp: is_auth_endpoint_def self_auth_type_def)

lemma record_response_sample_keys:
  "fst ` set (st_samples (record_response path method st response)) =
     (if http_error response = None \<and> json_body response \<noteq> None
      then insert path (fst ` set (st_samples st)) else fst ` set (st_samples st))"
  by (auto simp: record_response_def Let_def dom_update split: option.splits)

lemma sample_endpoint_sample_keys:
  "fst ` set (st_samples (sample_endpoint net self st e)) \<subseteq>
     fst ` set (st_samples st) \<union> ep_path ` set (sampled self [e])"
  by (auto simp: sample_endpoint_def Let_def sampled_def record_response_sample_keys
        split: sum.splits option.splits if_splits)

lemma sampling_sample_keys:
  "fst ` set (st_samples (foldl (sample_endpoint net self) st es)) \<subseteq>
     fst ` set (st_samples st) \<union> ep_path ` set (sampled self es)"
proof (induction es arbitrary: st)
  case Nil
  show ?case by simp
next
  case (Cons e es)
  show ?case
    using Cons.IH [of "sample_endpoint net self st e"] sample_endpoint_sample_keys [of net self st e]
    by (auto simp: sampled_def split: if_splits)
qed

lemma discover_from_samples_sampled:
  "discover_from_samples net (with_endpoints (sampled self (configured_endpoints self)) self) issued =
     (fst (discover_from_samples net self issued)
        \<lparr>summary := Some \<lparr>total_endpoints = length (sampled self (configured_endpoints self)),
             successful_endpoints = st_successful (sampling_loop net self issued (configured_endpoints self)),
             failed_endpoints = st_failed (sampling_loop net self issued (configured_endpoints self))\<rparr>\<rparr>,
      snd (discover_from_samples net self issued))"
  by (simp add: discover_from_samples_def sampling_loop_def Let_def sample_endpoint_config
      configured_endpoints_config sampling_skips)

text \<open>
  Claim C3, as stated: every endpoint of a non-empty configured list yields exactly one
  descriptor, in the order of the list. It fails when the list holds the
  \<open>token_from_auth\<close> login endpoint: the loop skips it, so the device configured with
  \<open>/login\<close> and \<open>/status\<close> gets the one descriptor of \<open>/status\<close>.
\<close>

theorem C3_auth_endpoint_counterexample:
  "map descriptor_key
     (endpoints (fst (discover_from_samples (json_net (JObj [(''up'', JInt 1)])) login_device []))) =
     [(''/status'', ''GET'')] \<and>
   map endpoint_key (configured_endpoints login_device) =
     [(''/login'', ''POST''), (''/status'', ''GET'')] \<and>
   length (endpoints (fst (discover_from_samples (json_net (JObj [(''up'', JInt 1)])) login_device []))) \<noteq>
     length (configured_endpoints login_device)"
  by (simp add: run_defs example_defs Let_def)

text \<open>
  Claim C3, amended: sampling-driven discovery emits exactly one descriptor for each
  configured endpoint that is not skipped as the \<open>token_from_auth\<close> login endpoint, with
  the endpoint's path and method, in the order of the configured list; a skipped
  endpoint yields none. This holds for every network, every device and every list (the
  default list of the root endpoint included).
\<close>

theorem C3_one_descriptor_per_sampled_endpoint:
  "map descriptor_key (endpoints (fst (discover_from_samples net self issued))) =
     map endpoint_key (sampled self (configured_endpoints self))"
  by (simp add: discover_from_samples_def sampling_loop_def Let_def sampling_keys)

text \<open>
  Claim C4: when authentication has failed, \<open>discover\<close> issues no request (neither the
  OpenAPI document nor any sample is fetched) and returns the structure with an empty
  endpoint list, \<open>auth_failed\<close> set to true and \<open>error\<close> set to the captured
  \<open>auth_error\<close>.
\<close>

theorem C4_auth_failed_skips_discovery:
  "auth_failed self \<Longrightarrow>
   discover net self =
     (\<lparr>endpoints = [], samples = None, summary = None, data_models = None,
       auth_failed_key = Some True, error_key = Some (auth_error self)\<rparr>, [])"
  by (simp add: discover_def)

theorem C4_auth_failed_skips_discovery_witness:
  "auth_failed (login_device\<lparr>auth_failed := True,
       auth_error := Some ''Missing auth_endpoint configuration''\<rparr>) \<and>
   discover (json_net (JObj [(''up'', JInt 1)]))
       (login_device\<lparr>auth_failed := True,
          auth_error := Some ''Missing auth_endpoint configuration''\<rparr>) =
     (\<lparr>endpoints = [], samples = None, summary = None, data_models = None,
       auth_failed_key = Some True,
       error_key = Some (Some ''Missing auth_endpoint configuration'')\<rparr>, [])"
  using C4_auth_failed_skips_discovery
    [of "login_device\<lparr>auth_failed := True,
           auth_error := Some ''Missing auth_endpoint configuration''\<rparr>"
        "json_net (JObj [(''up'', JInt 1)])"]
  by simp

text \<open>
  Claim C5, as stated: the check is true if and only if some branch reaches depth 5,
  and any element of an array can make it true. It fails on arrays: in
  \<open>[1, [[[[1]]]]]\<close> the second element reaches depth 5, the first does not, and the check
  answers false.
\<close>

theorem C5_later_array_element_counterexample:
  "full_depth (JArr [JInt 1, JArr [JArr [JArr [JArr [JInt 1]]]]]) = 5 \<and>
   \<not> is_deeply_nested (JArr [JInt 1, JArr [JArr [JArr [JArr [JInt 1]]]]]) 5"
  by (simp add: is_deeply_nested_def)

text \<open>
  Claim C5, amended: the check (with the default \<open>max_depth\<close> of 5) is true if and only
  if some branch that follows dictionary values and the first element of each array
  reaches depth 5 or more, the root at depth 0. An empty container has nothing below
  it: as the root it makes the check false, and at depth 5 it counts as reached, like a
  scalar there. The check does not change the metrics and tags: the descriptor of a
  JSON response carries the analyzer's output whatever the check says, which only sets
  \<open>nested_json\<close> and \<open>jsonv2_config\<close>. Six levels above a number are deep, three are not.
\<close>

theorem C5_deep_along_sampled_branches:
  "is_deeply_nested data 5 = (5 \<le> sampled_depth data) \<and>
   record_response path method st
       \<lparr>http_error = None, json_body = Some data, content_type = ct\<rparr> =
     st\<lparr>st_successful := st_successful st + 1,
        st_endpoints := st_endpoints st @
          [Ok_endpoint path method (fst (analyze_json_structure data ''''))
             (snd (analyze_json_structure data '''')) (is_deeply_nested data 5)
             (if is_deeply_nested data 5 \<and> analyze_json_structure data '''' \<noteq> ([], [])
              then Some (analyze_json_structure data '''') else None)],
        st_samples := AList.update path data (st_samples st)\<rparr> \<and>
   is_deeply_nested
     (JObj [(''a'', JObj [(''b'', JObj [(''c'', JObj [(''d'', JObj [(''e'',
        JObj [(''f'', JInt 1)])])])])])]) 5 \<and>
   \<not> is_deeply_nested (JObj [(''a'', JObj [(''b'', JObj [(''c'', JInt 1)])])]) 5 \<and>
   is_deeply_nested
     (JObj [(''a'', JObj [(''b'', JObj [(''c'', JObj [(''d'', JObj [(''e'', JObj [])])])])])]) 5 \<and>
   \<not> is_deeply_nested (JObj [(''a'', JObj [(''b'', JObj [(''c'', JObj [(''d'', JObj [])])])])]) 5"
  by (auto simp: is_deeply_nested_iff record_response_def Let_def prod_eq_iff)

text \<open>
  Claim C6, as stated: whenever specification-driven discovery fails, a document with
  unusable \<open>paths\<close> included, \<open>discover\<close> returns what sampling returns for the
  configuration without \<open>swagger_url\<close>. It fails for a document that parses and has no
  \<open>paths\<close>: nothing is raised, so \<open>discover\<close> returns the empty endpoint list of the
  document and never samples, while the same device without \<open>swagger_url\<close> gets the
  descriptor of its root endpoint.
\<close>

theorem C6_unusable_paths_counterexample:
  "fst (discover_from_swagger (json_net (JObj [(''swagger'', JStr ''2.0'')])) swagger_device) =
     Inr \<lparr>endpoints = [], samples = None, summary = None, data_models = Some (JObj []),
          auth_failed_key = None, error_key = None\<rparr> \<and>
   endpoints (fst (discover (json_net (JObj [(''swagger'', JStr ''2.0'')])) swagger_device)) = [] \<and>
   endpoints (fst (discover (json_net (JObj [(''swagger'', JStr ''2.0'')]))
       (without_swagger_url swagger_device))) =
     [Ok_endpoint '''' ''GET'' [] [\<lparr>t_path = ''swagger'', t_name = ''swagger''\<rparr>] False None]"
  by (simp add: run_defs example_defs Let_def)

text \<open>
  Claim C6, amended: for a device that authenticated and has a \<open>swagger_url\<close>, if
  specification-driven discovery raises (the request fails, the status is an error, the
  body is not JSON, or the document's shape makes the traversal raise), \<open>discover\<close>
  returns exactly the structure that sampling-driven discovery returns for the same
  configuration without \<open>swagger_url\<close>, the sample requests being answered alike (the
  network of the second run is the first one's after its request for the document);
  the only difference is that one request, first in the log. A document that parses
  and has no \<open>paths\<close> is not a failure.
\<close>

theorem C6_fallback_parity:
  assumes "\<not> auth_failed self"
    and "swagger_url (api (device_config self)) = Some url"
    and "fst (discover_from_swagger net self) = Inl e"
  shows "fst (discover net self) =
           fst (discover (\<lambda>n. net (Suc n)) (without_swagger_url self)) \<and>
         snd (discover net self) =
           (''GET'', url) # snd (discover (\<lambda>n. net (Suc n)) (without_swagger_url self))"
proof -
  have direct: "discover (\<lambda>n. net (Suc n)) (without_swagger_url self) =
      discover_from_samples (\<lambda>n. net (Suc n)) self []"
    using assms(1)
    by (simp add: discover_def auth_failed_without_swagger discover_from_samples_without_swagger)
  have "discover net self = discover_from_samples net self [(''GET'', url)]"
    using assms by (rule discover_falls_back)
  also have "\<dots> = (fst (discover_from_samples (\<lambda>n. net (Suc n)) self []),
      [(''GET'', url)] @ snd (discover_from_samples (\<lambda>n. net (Suc n)) self []))"
    using discover_from_samples_shift [of net self "[(''GET'', url)]"] by simp
  finally show ?thesis by (simp add: direct)
qed

theorem C6_fallback_parity_witness:
  "\<not> auth_failed swagger_device \<and>
   swagger_url (api (device_config swagger_device)) = Some ''http://device/swagger.json'' \<and>
   fst (discover_from_swagger (refusing_at ''http://device/swagger.json'' (JObj [(''up'', JInt 1)]))
          swagger_device) = Inl (RequestException ''connection refused'') \<and>
   fst (discover (refusing_at ''http://device/swagger.json'' (JObj [(''up'', JInt 1)])) swagger_device) =
     fst (discover (\<lambda>n. refusing_at ''http://device/swagger.json'' (JObj [(''up'', JInt 1)]) (Suc n))
            (without_swagger_url swagger_device)) \<and>
   endpoints (fst (discover (refusing_at ''http://device/swagger.json'' (JObj [(''up'', JInt 1)])) swagger_device)) =
     [Ok_endpoint '''' ''GET'' [\<lparr>m_path = ''up'', m_name = ''up'', m_type = ''int''\<rparr>] [] False None] \<and>
   snd (discover (refusing_at ''http://device/swagger.json'' (JObj [(''up'', JInt 1)])) swagger_device) =
     [(''GET'', ''http://device/swagger.json''), (''GET'', ''http://device/api/'')]"
proof -
  have h1: "\<not> auth_failed swagger_device"
    by (simp add: example_defs)
  have h2: "swagger_url (api (device_config swagger_device)) = Some ''http://device/swagger.json''"
    by (simp add: example_defs)
  have h3: "fst (discover_from_swagger (refusing_at ''http://device/swagger.json'' (JObj [(''up'', JInt 1)]))
          swagger_device) = Inl (RequestException ''connection refused'')"
    by (simp add: example_defs discover_from_swagger_def)
  show ?thesis
    using C6_fallback_parity [OF h1 h2 h3] h1 h2 h3
    by (simp add: run_defs example_defs Let_def)
qed

text \<open>
  Claim C7: under \<open>token_from_auth\<close>, a configured endpoint whose path equals
  \<open>auth_endpoint\<close> appears in no descriptor and in no stored sample, and is never
  requested: the descriptors, the samples and the request log are those of the run in
  which those endpoints are not configured at all.
\<close>

theorem C7_auth_endpoint_never_sampled:
  assumes "auth_type (api (device_config self)) = Some ''token_from_auth''"
    and "auth_endpoint (api (device_config self)) = Some p"
  shows "(\<forall>d \<in> set (endpoints (fst (discover_from_samples net self issued))). ec_path d \<noteq> p) \<and>
    (\<forall>kept \<in> set (the (samples (fst (discover_from_samples net self issued)))). fst kept \<noteq> p) \<and>
    endpoints (fst (discover_from_samples net self issued)) =
      endpoints (fst (discover_from_samples net
        (with_endpoints (filter (\<lambda>e. ep_path e \<noteq> p) (configured_endpoints self)) self) issued)) \<and>
    samples (fst (discover_from_samples net self issued)) =
      samples (fst (discover_from_samples net
        (with_endpoints (filter (\<lambda>e. ep_path e \<noteq> p) (configured_endpoints self)) self) issued)) \<and>
    snd (discover_from_samples net self issued) =
      snd (discover_from_samples net
        (with_endpoints (filter (\<lambda>e. ep_path e \<noteq> p) (configured_endpoints self)) self) issued)"
proof -
  let ?es = "configured_endpoints self"
  have skip: "sampled self ?es = filter (\<lambda>e. ep_path e \<noteq> p) ?es"
    using token_from_auth_skips [OF assms] by (simp add: sampled_def)
  have keys: "map descriptor_key (endpoints (fst (discover_from_samples net self issued))) =
      map endpoint_key (sampled self ?es)"
    by (simp add: discover_from_samples_def sampling_loop_def Let_def sampling_keys)
  have "ec_path ` set (endpoints (fst (discover_from_samples net self issued))) =
      ep_path ` set (sampled self ?es)"
  proof -
    have "fst ` set (map descriptor_key (endpoints (fst (discover_from_samples net self issued)))) =
        fst ` set (map endpoint_key (sampled self ?es))"
      by (simp only: keys)
    then show ?thesis
      by (simp add: image_image descriptor_key_def endpoint_key_def)
  qed
  moreover have "p \<notin> ep_path ` set (sampled self ?es)"
    by (auto simp: skip)
  ultimately have descriptors: "\<forall>d \<in> set (endpoints (fst (discover_from_samples net self issued))). ec_path d \<noteq> p"
    by (metis imageI)
  have "fst ` set (the (samples (fst (discover_from_samples net self issued)))) \<subseteq>
      ep_path ` set (sampled self ?es)"
    using sampling_sample_keys [of net self
        "\<lparr>st_endpoints = [], st_samples = [], st_successful = 0, st_failed = 0,
          st_response = None, st_requests = issued\<rparr>" ?es]
    by (simp add: discover_from_samples_def sampling_loop_def Let_def)
  moreover have "p \<notin> ep_path ` set (sampled self ?es)"
    by (auto simp: skip)
  ultimately have kept: "\<forall>kept \<in> set (the (samples (fst (discover_from_samples net self issued)))). fst kept \<noteq> p"
    by (metis imageI subsetD)
  show ?thesis
    using descriptors kept discover_from_samples_sampled [of net self issued]
    by (simp add: skip)
qed

theorem C7_auth_endpoint_never_sampled_witness:
  "auth_type (api (device_config login_device)) = Some ''token_from_auth'' \<and>
   auth_endpoint (api (device_config login_device)) = Some ''/login'' \<and>
   discover_from_samples (json_net (JObj [(''up'', JInt 1)])) login_device [] =
     (\<lparr>endpoints = [Ok_endpoint ''/status'' ''GET''
                       [\<lparr>m_path = ''up'', m_name = ''up'', m_type = ''int''\<rparr>] [] False None],
       samples = Some [(''/status'', JObj [(''up'', JInt 1)])],
       summary = Some \<lparr>total_endpoints = 2, successful_endpoints = 1, failed_endpoints = 0\<rparr>,
       data_models = None, auth_failed_key = None, error_key = None\<rparr>,
      [(''GET'', ''http://device/api/status'')]) \<and>
   snd (discover_from_samples (json_net (JObj [(''up'', JInt 1)])) login_device []) =
     snd (discover_from_samples (json_net (JObj [(''up'', JInt 1)]))
        (with_endpoints (filter (\<lambda>e. ep_path e \<noteq> ''/login'') (configured_endpoints login_device))
           login_device) [])"
proof -
  have h1: "auth_type (api (device_config login_device)) = Some ''token_from_auth''"
    by (simp add: example_defs)
  have h2: "auth_endpoint (api (device_config login_device)) = Some ''/login''"
    by (simp add: example_defs)
  have run: "discover_from_samples (json_net (JObj [(''up'', JInt 1)])) login_device [] =
     (\<lparr>endpoints = [Ok_endpoint ''/status'' ''GET''
                       [\<lparr>m_path = ''up'', m_name = ''up'', m_type = ''int''\<rparr>] [] False None],
       samples = Some [(''/status'', JObj [(''up'', JInt 1)])],
       summary = Some \<lparr>total_endpoints = 2, successful_endpoints = 1, failed_endpoints = 0\<rparr>,
       data_models = None, auth_failed_key = None, error_key = None\<rparr>,
      [(''GET'', ''http://device/api/status'')])"
    by (simp add: run_defs example_defs Let_def)
  show ?thesis
    using C7_auth_endpoint_never_sampled [OF h1 h2, of "json_net (JObj [(''up'', JInt 1)])" "[]"] h1 h2 run
    by simp
qed

text \<open>
  Claim C10: \<open>total_endpoints\<close> is the length of the configured list, skipped endpoints
  included; \<open>successful_endpoints\<close> and \<open>failed_endpoints\<close> count the descriptors with
  status \<open>ok\<close> and \<open>error\<close>, and a response that is not JSON appends its \<open>non-json\<close>
  descriptor and changes neither counter. So the two counters can add up to less than
  the total: the device with a skipped login endpoint and a plain-text status page has
  a total of 2 and both counters at 0.
\<close>

theorem C10_summary_counts:
  "summary (fst (discover_from_samples net self issued)) =
     Some \<lparr>total_endpoints = length (configured_endpoints self),
           successful_endpoints =
             count_status ''ok'' (endpoints (fst (discover_from_samples net self issued))),
           failed_endpoints =
             count_status ''error'' (endpoints (fst (discover_from_samples net self issued)))\<rparr> \<and>
   record_response path method st \<lparr>http_error = None, json_body = None, content_type = ct\<rparr> =
     st\<lparr>st_endpoints := st_endpoints st @
          [Non_json_endpoint path method (case ct of None \<Rightarrow> ''unknown'' | Some c \<Rightarrow> c)]\<rparr> \<and>
   discover_from_samples text_net login_device [] =
     (\<lparr>endpoints = [Non_json_endpoint ''/status'' ''GET'' ''text/plain''],
       samples = Some [],
       summary = Some \<lparr>total_endpoints = 2, successful_endpoints = 0, failed_endpoints = 0\<rparr>,
       data_models = None, auth_failed_key = None, error_key = None\<rparr>,
      [(''GET'', ''http://device/api/status'')])"
proof -
  have counts: "st_successful (sampling_loop net self issued (configured_endpoints self)) =
      count_status ''ok'' (st_endpoints (sampling_loop net self issued (configured_endpoints self))) \<and>
    st_failed (sampling_loop net self issued (configured_endpoints self)) =
      count_status ''error'' (st_endpoints (sampling_loop net self issued (configured_endpoints self)))"
    unfolding sampling_loop_def
    by (rule sampling_counted) (simp_all add: count_status_def)
  have first: "summary (fst (discover_from_samples net self issued)) =
     Some \<lparr>total_endpoints = length (configured_endpoints self),
           successful_endpoints =
             count_status ''ok'' (endpoints (fst (discover_from_samples net self issued))),
           failed_endpoints =
             count_status ''error'' (endpoints (fst (discover_from_samples net self issued)))\<rparr>"
    using counts by (simp add: discover_from_samples_def Let_def)
  have second: "record_response path method st \<lparr>http_error = None, json_body = None, content_type = ct\<rparr> =
     st\<lparr>st_endpoints := st_endpoints st @
          [Non_json_endpoint path method (case ct of None \<Rightarrow> ''unknown'' | Some c \<Rightarrow> c)]\<rparr>"
    by (simp add: record_response_def)
  have third: "discover_from_samples text_net login_device [] =
     (\<lparr>endpoints = [Non_json_endpoint ''/status'' ''GET'' ''text/plain''],
       samples = Some [],
       summary = Some \<lparr>total_endpoints = 2, successful_endpoints = 0, failed_endpoints = 0\<rparr>,
       data_models = None, auth_failed_key = None, error_key = None\<rparr>,
      [(''GET'', ''http://device/api/status'')])"
    by (simp add: run_defs example_defs Let_def)
  show ?thesis using first second third by simp
qed

section \<open>Properties of the OpenID-Connect token flow\<close>

lemmas oidc_defs =
  refresh_attempt_def store_tokens_def save_token_store_def load_token_store_def
  still_valid_def password_grant_def resolve_password_def

lemmas oidc_example_defs =
  oidc_device_def stale_record_def stale_world_def rejecting_env_def refreshing_env_def
  unwritable_env_def
  example_device_def example_api_def

lemma store_tokens_raised:
  "store_tokens env self w reply old url cid = Inl (self1, w1) \<Longrightarrow>
     w1 = w \<and> device_config self1 = device_config self \<and> token_store self1 = token_store self"
  by (auto simp: store_tokens_def Let_def split: sum.splits option.splits if_splits)

lemma refresh_attempt_raised:
  assumes "refresh_attempt env self w token_data = Inl (self1, w1)"
  shows "disk w1 = disk w \<and> device_config self1 = device_config self \<and>
         length (posted w) \<le> length (posted w1)"
proof -
  have "\<And>w' reply old url cid. store_tokens env self w' reply old url cid = Inl (self1, w1) \<Longrightarrow>
      w1 = w' \<and> device_config self1 = device_config self"
    using store_tokens_raised by blast
  then show ?thesis
    using assms
    by (fastforce simp: refresh_attempt_def Let_def split: option.splits json.splits)
qed

text \<open>
  Whatever made the refresh attempt raise: as long as the file still holds the record
  and the record is still expired, the fallback call of \<open>_get_openid_token\<close> is the next
  call of \<open>_refresh_openid_token\<close> on the same record.
\<close>

lemma fallback_reenters_refresh:
  assumes "refresh_attempt env self w token_data = Inl (self1, w1)"
    and "disk w = Stored store"
    and "map_of store (device_name (device_config self)) = Some token_data"
    and "still_valid env w1 token_data = Some False"
    and "''refresh_token'' \<in> set (map fst token_data)"
  shows "refresh_openid_token (Suc (Suc depth)) env self w token_data =
           refresh_openid_token depth env (self1\<lparr>token_store := store\<rparr>) w1 token_data"
proof -
  from refresh_attempt_raised [OF assms(1)]
  have same: "disk w1 = Stored store" "device_config self1 = device_config self"
    using assms(2) by simp_all
  then have "load_token_store self1 w1 = self1\<lparr>token_store := store\<rparr>"
    by (simp add: load_token_store_def)
  then have "get_openid_token (Suc depth) env self1 w1 =
      refresh_openid_token depth env (self1\<lparr>token_store := store\<rparr>) w1 token_data"
    using same assms(3,4,5) by (simp add: Let_def)
  then show ?thesis using assms(1) by simp
qed

lemma rejected_refresh:
  "refresh_attempt rejecting_env self w stale_record =
     Inl (self, w\<lparr>posted := posted w @
       [Refresh_grant ''http://device/api/auth/token'' (JStr ''webui'') (JStr ''old-refresh'')]\<rparr>)"
  by (simp add: refresh_attempt_def stale_record_def rejecting_env_def Let_def)

lemma stale_stays_stale:
  "still_valid rejecting_env w stale_record = Some False"
  by (simp add: still_valid_def stale_record_def rejecting_env_def)

lemma rejecting_never_returns:
  assumes "disk w = Stored [(''probe'', stale_record)]"
    and "device_name (device_config self) = ''probe''"
  shows "get_openid_token depth rejecting_env self w = None \<and>
         refresh_openid_token depth rejecting_env self w stale_record = None"
  using assms
proof (induction depth arbitrary: self w rule: less_induct)
  case (less depth)
  show ?case
  proof (cases depth)
    case 0
    then show ?thesis by simp
  next
    case (Suc d)
    let ?sent = "w\<lparr>posted := posted w @
       [Refresh_grant ''http://device/api/auth/token'' (JStr ''webui'') (JStr ''old-refresh'')]\<rparr>"
    let ?loaded = "self\<lparr>token_store := [(''probe'', stale_record)]\<rparr>"
    have key: "''refresh_token'' \<in> set (map fst stale_record)"
      by (simp add: stale_record_def)
    have "refresh_openid_token d rejecting_env ?loaded w stale_record = None"
      using less.IH [where y = d and self = ?loaded and w = w] less.prems Suc by simp
    then have get: "get_openid_token depth rejecting_env self w = None"
      using less.prems Suc key
      by (simp add: Let_def load_token_store_def stale_stays_stale)
    have "get_openid_token d rejecting_env self ?sent = None"
      using less.IH [where y = d and self = self and w = ?sent] less.prems Suc by simp
    then have "refresh_openid_token depth rejecting_env self w stale_record = None"
      using Suc by (simp add: rejected_refresh)
    with get show ?thesis by simp
  qed
qed

lemma store_tokens_success:
  assumes "map_of reply ''access_token'' = Some access_token"
    and "py_truthy access_token"
    and "float_addend (case map_of reply ''expires_in'' of None \<Rightarrow> JInt 300 | Some v \<Rightarrow> v) =
           Some seconds"
  shows "store_tokens env self w (JObj reply) old url client_id =
     Inr (self\<lparr>auth_token := Some access_token, authorization := Some access_token,
               token_store := AList.update (device_name (device_config self))
                 [(''access_token'', access_token),
                  (''refresh_token'', case map_of reply ''refresh_token'' of None \<Rightarrow> old | Some r \<Rightarrow> r),
                  (''expires_at'', JFloat (clock env (length (posted w)) + seconds)),
                  (''token_url'', JStr url), (''client_id'', client_id)]
                 (token_store self)\<rparr>,
          save_token_store env
            (self\<lparr>auth_token := Some access_token, authorization := Some access_token,
               token_store := AList.update (device_name (device_config self))
                 [(''access_token'', access_token),
                  (''refresh_token'', case map_of reply ''refresh_token'' of None \<Rightarrow> old | Some r \<Rightarrow> r),
                  (''expires_at'', JFloat (clock env (length (posted w)) + seconds)),
                  (''token_url'', JStr url), (''client_id'', client_id)]
                 (token_store self)\<rparr>) w)"
  using assms by (simp add: store_tokens_def Let_def)

text \<open>
  Claim C1 says that a failed refresh grant is followed by exactly one full
  re-authentication and no further recursion. The source's handler means that (its
  comment reads "If refresh fails, try a full re-authentication") and calls
  \<open>_get_openid_token\<close>; but that method reloads the store, finds the same expired record
  with its refresh token, and calls \<open>_refresh_openid_token\<close> again. For the device whose
  record expired and a token endpoint that rejects every request: the call returns at
  no depth of the stack; the refresh attempt raises after posting its refresh grant;
  and the fallback call is the next refresh of the same record, not a password grant.
\<close>

theorem C1_refresh_failure_recurses_without_end:
  "get_openid_token depth rejecting_env oidc_device stale_world = None \<and>
   refresh_attempt rejecting_env (load_token_store oidc_device stale_world) stale_world stale_record =
     Inl (load_token_store oidc_device stale_world,
          stale_world\<lparr>posted :=
            [Refresh_grant ''http://device/api/auth/token'' (JStr ''webui'') (JStr ''old-refresh'')]\<rparr>) \<and>
   get_openid_token (Suc depth) rejecting_env (load_token_store oidc_device stale_world)
       (stale_world\<lparr>posted :=
            [Refresh_grant ''http://device/api/auth/token'' (JStr ''webui'') (JStr ''old-refresh'')]\<rparr>) =
     refresh_openid_token depth rejecting_env (load_token_store oidc_device stale_world)
       (stale_world\<lparr>posted :=
            [Refresh_grant ''http://device/api/auth/token'' (JStr ''webui'') (JStr ''old-refresh'')]\<rparr>)
       stale_record"
proof -
  have "get_openid_token depth rejecting_env oidc_device stale_world = None"
    using rejecting_never_returns [of stale_world oidc_device depth]
    by (simp add: stale_world_def oidc_device_def example_device_def)
  moreover have "refresh_attempt rejecting_env (load_token_store oidc_device stale_world) stale_world stale_record =
     Inl (load_token_store oidc_device stale_world,
          stale_world\<lparr>posted :=
            [Refresh_grant ''http://device/api/auth/token'' (JStr ''webui'') (JStr ''old-refresh'')]\<rparr>)"
    by (simp add: rejected_refresh stale_world_def)
  moreover have "get_openid_token (Suc depth) rejecting_env (load_token_store oidc_device stale_world)
       (stale_world\<lparr>posted :=
            [Refresh_grant ''http://device/api/auth/token'' (JStr ''webui'') (JStr ''old-refresh'')]\<rparr>) =
     refresh_openid_token depth rejecting_env (load_token_store oidc_device stale_world)
       (stale_world\<lparr>posted :=
            [Refresh_grant ''http://device/api/auth/token'' (JStr ''webui'') (JStr ''old-refresh'')]\<rparr>)
       stale_record"
    by (simp add: Let_def load_token_store_def stale_world_def oidc_device_def example_device_def
        stale_stays_stale) (simp add: stale_record_def)
  ultimately show ?thesis by simp
qed

text \<open>
  Claim C9, as stated: after a successful refresh grant the updated record is persisted
  to the token store. It fails when the file cannot be written: \<open>_save_token_store\<close>
  catches the error and logs it, the method returns with the new record in memory, and
  the file still holds the old record with the old access token.
\<close>

theorem C9_unwritable_store_counterexample:
  "refresh_openid_token (Suc 0) unwritable_env oidc_device stale_world stale_record =
     Some (oidc_device\<lparr>auth_token := Some (JStr ''new-access''),
             authorization := Some (JStr ''new-access''),
             token_store :=
               [(''probe'',
                 [(''access_token'', JStr ''new-access''), (''refresh_token'', JStr ''old-refresh''),
                  (''expires_at'', JFloat 5120),
                  (''token_url'', JStr ''http://device/api/auth/token''),
                  (''client_id'', JStr ''webui'')])]\<rparr>,
           \<lparr>disk = Stored
              [(''probe'',
                [(''access_token'', JStr ''old-access''), (''refresh_token'', JStr ''old-refresh''),
                 (''expires_at'', JFloat 1000),
                 (''token_url'', JStr ''http://device/api/auth/token''),
                 (''client_id'', JStr ''webui'')])],
            posted = [Refresh_grant ''http://device/api/auth/token'' (JStr ''webui'')
                        (JStr ''old-refresh'')]\<rparr>)"
  by (simp add: oidc_defs oidc_example_defs Let_def float_overflow_def)

text \<open>
  Claim C9, amended: when the refresh grant succeeds (the stored record has \<open>token_url\<close>,
  \<open>client_id\<close> and \<open>refresh_token\<close>; the endpoint answers with a JSON object whose
  \<open>access_token\<close> is not empty and whose \<open>expires_in\<close>, 300 when absent, is a number that
  a float can hold), the call returns, one level of the stack being enough, and the
  device's record in the store of the instance is overwritten with exactly the five
  keys \<open>access_token\<close> (the new one), \<open>refresh_token\<close> (the new one, or the old one when
  the response has none), \<open>expires_at\<close> (the time after the request plus \<open>expires_in\<close>),
  \<open>token_url\<close> and \<open>client_id\<close> (both as stored before); the records of other devices
  stay; the session's token is the new access token; one refresh grant was posted; and
  the whole store is then written to the file. That write is attempted, not
  guaranteed: when it succeeds the file holds the updated store; when the file cannot
  be opened it stays as it was; when the write fails after the file was opened, the
  file no longer loads. In the last two cases the failure is logged and the record in
  memory is the updated one all the same.
\<close>

theorem C9_refresh_success_overwrites_record:
  assumes "map_of token_data ''token_url'' = Some (JStr url)"
    and "map_of token_data ''client_id'' = Some client_id"
    and "map_of token_data ''refresh_token'' = Some old_refresh_token"
    and "post env (length (posted w)) (Refresh_grant url client_id old_refresh_token) =
           Some (JObj reply)"
    and "map_of reply ''access_token'' = Some access_token"
    and "py_truthy access_token"
    and "float_addend (case map_of reply ''expires_in'' of None \<Rightarrow> JInt 300 | Some v \<Rightarrow> v) =
           Some seconds"
  shows "\<exists>self' w'.
     refresh_openid_token (Suc depth) env self w token_data = Some (self', w') \<and>
     map_of (token_store self') (device_name (device_config self)) =
       Some [(''access_token'', access_token),
             (''refresh_token'',
                case map_of reply ''refresh_token'' of None \<Rightarrow> old_refresh_token | Some r \<Rightarrow> r),
             (''expires_at'', JFloat (clock env (Suc (length (posted w))) + seconds)),
             (''token_url'', JStr url),
             (''client_id'', client_id)] \<and>
     token_store self' =
       AList.update (device_name (device_config self))
         [(''access_token'', access_token),
          (''refresh_token'',
             case map_of reply ''refresh_token'' of None \<Rightarrow> old_refresh_token | Some r \<Rightarrow> r),
          (''expires_at'', JFloat (clock env (Suc (length (posted w))) + seconds)),
          (''token_url'', JStr url),
          (''client_id'', client_id)]
         (token_store self) \<and>
     auth_token self' = Some access_token \<and>
     authorization self' = Some access_token \<and>
     device_config self' = device_config self \<and>
     posted w' = posted w @ [Refresh_grant url client_id old_refresh_token] \<and>
     disk w' =
       (case file_write env (Suc (length (posted w))) of
          Write_ok \<Rightarrow> Stored (token_store self')
        | Open_fails \<Rightarrow> disk w
        | Write_fails \<Rightarrow> Unreadable)"
proof -
  let ?sent = "w\<lparr>posted := posted w @ [Refresh_grant url client_id old_refresh_token]\<rparr>"
  have "refresh_attempt env self w token_data =
      store_tokens env self ?sent (JObj reply) old_refresh_token url client_id"
    using assms(1-4) by (simp add: refresh_attempt_def Let_def)
  then show ?thesis
    using store_tokens_success [OF assms(5-7), of env self ?sent old_refresh_token url client_id]
    by (simp add: save_token_store_def update_conv' split: write_outcome.splits)
qed

theorem C9_refresh_success_overwrites_record_witness:
  "map_of stale_record ''token_url'' = Some (JStr ''http://device/api/auth/token'') \<and>
   map_of stale_record ''client_id'' = Some (JStr ''webui'') \<and>
   map_of stale_record ''refresh_token'' = Some (JStr ''old-refresh'') \<and>
   post refreshing_env (length (posted stale_world))
       (Refresh_grant ''http://device/api/auth/token'' (JStr ''webui'') (JStr ''old-refresh'')) =
     Some (JObj [(''access_token'', JStr ''new-access''), (''expires_in'', JInt 120)]) \<and>
   py_truthy (JStr ''new-access'') \<and>
   float_addend (JInt 120) = Some 120 \<and>
   (\<exists>self' w'.
     refresh_openid_token (Suc 0) refreshing_env oidc_device stale_world stale_record = Some (self', w') \<and>
     map_of (token_store self') ''probe'' =
       Some [(''access_token'', JStr ''new-access''), (''refresh_token'', JStr ''old-refresh''),
             (''expires_at'', JFloat 5120),
             (''token_url'', JStr ''http://device/api/auth/token''),
             (''client_id'', JStr ''webui'')] \<and>
     auth_token self' = Some (JStr ''new-access'') \<and>
     posted w' = [Refresh_grant ''http://device/api/auth/token'' (JStr ''webui'') (JStr ''old-refresh'')] \<and>
     disk w' = Stored (token_store self')) \<and>
   get_openid_token (Suc (Suc 0)) refreshing_env oidc_device stale_world =
     Some (oidc_device\<lparr>auth_token := Some (JStr ''new-access''),
             authorization := Some (JStr ''new-access''),
             token_store :=
               [(''probe'',
                 [(''access_token'', JStr ''new-access''), (''refresh_token'', JStr ''old-refresh''),
                  (''expires_at'', JFloat 5120),
                  (''token_url'', JStr ''http://device/api/auth/token''),
                  (''client_id'', JStr ''webui'')])]\<rparr>,
           \<lparr>disk = Stored
              [(''probe'',
                [(''access_token'', JStr ''new-access''), (''refresh_token'', JStr ''old-refresh''),
                 (''expires_at'', JFloat 5120),
                 (''token_url'', JStr ''http://device/api/auth/token''),
                 (''client_id'', JStr ''webui'')])],
            posted = [Refresh_grant ''http://device/api/auth/token'' (JStr ''webui'')
                        (JStr ''old-refresh'')]\<rparr>)"
proof -
  have h1: "map_of stale_record ''token_url'' = Some (JStr ''http://device/api/auth/token'')"
    and h2: "map_of stale_record ''client_id'' = Some (JStr ''webui'')"
    and h3: "map_of stale_record ''refresh_token'' = Some (JStr ''old-refresh'')"
    by (simp_all add: stale_record_def)
  have h4: "post refreshing_env (length (posted stale_world))
       (Refresh_grant ''http://device/api/auth/token'' (JStr ''webui'') (JStr ''old-refresh'')) =
     Some (JObj [(''access_token'', JStr ''new-access''), (''expires_in'', JInt 120)])"
    by (simp add: refreshing_env_def)
  have h5: "map_of [(''access_token'', JStr ''new-access''), (''expires_in'', JInt 120)] ''access_token'' =
      Some (JStr ''new-access'')"
    by simp
  have h6: "py_truthy (JStr ''new-access'')"
    by simp
  have h8: "float_addend (JInt 120) = Some 120"
    by (simp add: float_overflow_def)
  have h7: "float_addend (case map_of [(''access_token'', JStr ''new-access''), (''expires_in'', JInt 120)]
        ''expires_in'' of None \<Rightarrow> JInt 300 | Some v \<Rightarrow> v) = Some 120"
    using h8 by simp
  have run: "get_openid_token (Suc (Suc 0)) refreshing_env oidc_device stale_world =
     Some (oidc_device\<lparr>auth_token := Some (JStr ''new-access''),
             authorization := Some (JStr ''new-access''),
             token_store :=
               [(''probe'',
                 [(''access_token'', JStr ''new-access''), (''refresh_token'', JStr ''old-refresh''),
                  (''expires_at'', JFloat 5120),
                  (''token_url'', JStr ''http://device/api/auth/token''),
                  (''client_id'', JStr ''webui'')])]\<rparr>,
           \<lparr>disk = Stored
              [(''probe'',
                [(''access_token'', JStr ''new-access''), (''refresh_token'', JStr ''old-refresh''),
                 (''expires_at'', JFloat 5120),
                 (''token_url'', JStr ''http://device/api/auth/token''),
                 (''client_id'', JStr ''webui'')])],
            posted = [Refresh_grant ''http://device/api/auth/token'' (JStr ''webui'')
                        (JStr ''old-refresh'')]\<rparr>)"
    by (simp add: oidc_defs oidc_example_defs Let_def float_overflow_def)
  have e1: "device_name (device_config oidc_device) = ''probe''"
    by (simp add: oidc_device_def example_device_def)
  have e2: "\<And>n. clock refreshing_env n = 5000" "\<And>n. file_write refreshing_env n = Write_ok"
    by (simp_all add: refreshing_env_def)
  have e3: "posted stale_world = []"
    by (simp add: stale_world_def)
  from C9_refresh_success_overwrites_record [OF h1 h2 h3 h4 h5 h6 h7, of 0 oidc_device]
  obtain self' w' where
    r: "refresh_openid_token (Suc 0) refreshing_env oidc_device stale_world stale_record = Some (self', w')"
    and s: "map_of (token_store self') ''probe'' =
       Some [(''access_token'', JStr ''new-access''), (''refresh_token'', JStr ''old-refresh''),
             (''expires_at'', JFloat 5120),
             (''token_url'', JStr ''http://device/api/auth/token''),
             (''client_id'', JStr ''webui'')]"
    and t: "auth_token self' = Some (JStr ''new-access'')"
    and p: "posted w' = [Refresh_grant ''http://device/api/auth/token'' (JStr ''webui'') (JStr ''old-refresh'')]"
    and d: "disk w' = Stored (token_store self')"
    by (auto simp: e1 e2 e3)
  from r s t p d have "\<exists>self' w'.
     refresh_openid_token (Suc 0) refreshing_env oidc_device stale_world stale_record = Some (self', w') \<and>
     map_of (token_store self') ''probe'' =
       Some [(''access_token'', JStr ''new-access''), (''refresh_token'', JStr ''old-refresh''),
             (''expires_at'', JFloat 5120),
             (''token_url'', JStr ''http://device/api/auth/token''),
             (''client_id'', JStr ''webui'')] \<and>
     auth_token self' = Some (JStr ''new-access'') \<and>
     posted w' = [Refresh_grant ''http://device/api/auth/token'' (JStr ''webui'') (JStr ''old-refresh'')] \<and>
     disk w' = Stored (token_store self')"
    by blast
  then show ?thesis
    using h1 h2 h3 h4 h6 h8 run by blast
qed

end
